theory Spec2Isabelle
  imports Complex_Main "HOL-Library.Multiset"
begin

section \<open>PaymentService (services/PaymentService.js)\<close>

text \<open>
  A shallow embedding of the class \<^verbatim>\<open>PaymentService\<close>. The object \<^verbatim>\<open>this\<close> is the record
  \<open>service\<close>; every method takes it and returns it updated, next to what the method
  returns or throws. What the code reads from outside is a parameter of the method that
  reads it: the keyed digest of \<^verbatim>\<open>crypto.createHmac('sha256', key).update(msg).digest('hex')\<close>
  is the function \<open>hmac\<close>, each \<^verbatim>\<open>Date.now()\<close> and \<^verbatim>\<open>new Date()\<close> is a clock reading in
  milliseconds, and \<^verbatim>\<open>Math.random().toString(36).substr(2, 9)\<close> is a string. The calls of
  \<^verbatim>\<open>console.log\<close> print nothing that the model keeps; where evaluating their arguments can
  throw, the model throws.
\<close>

subsection \<open>JavaScript values\<close>

text \<open>A \<^verbatim>\<open>TypeError\<close> of the runtime, by what raised it and on which property or method.\<close>

datatype type_error =
    Not_a_function string
  | Cannot_read_property string
  | Invalid_key_argument

text \<open>
  What a method throws: \<open>Error m\<close> is \<^verbatim>\<open>new Error(m)\<close>, and \<open>Rethrown prefix e\<close> is the
  \<^verbatim>\<open>new Error(`${prefix}${e.message}`)\<close> of a \<^verbatim>\<open>catch (e)\<close> block.
\<close>

datatype error =
    Error string
  | TypeError type_error
  | Rethrown string error

text \<open>A string that may be \<^verbatim>\<open>undefined\<close>. It is falsy when undefined or empty.\<close>

definition falsy :: "string option \<Rightarrow> bool" where
  "falsy x = (case x of None \<Rightarrow> True | Some v \<Rightarrow> v = [])"

text \<open>\<^verbatim>\<open>x || d\<close> on such a string.\<close>

definition or_else :: "string option \<Rightarrow> string \<Rightarrow> string" where
  "or_else x d = (if falsy x then d else (case x of None \<Rightarrow> d | Some v \<Rightarrow> v))"

text \<open>The decimal numeral of a non-negative integer, as a template literal prints it.\<close>

definition digit :: "nat \<Rightarrow> char" where
  "digit d = ''0123456789'' ! (d mod 10)"

fun dec :: "nat \<Rightarrow> string" where
  "dec n = (if n < 10 then [digit n] else dec (n div 10) @ [digit (n mod 10)])"

text \<open>
  A \<^verbatim>\<open>Map\<close>, as the list of its entries in insertion order. \<^verbatim>\<open>set\<close> on a key that is
  present replaces the value where the entry stands; on a new key it appends the entry.
\<close>

type_synonym ('k, 'v) js_map = "('k \<times> 'v) list"

fun map_set :: "'k \<Rightarrow> 'v \<Rightarrow> ('k, 'v) js_map \<Rightarrow> ('k, 'v) js_map" where
  "map_set k v [] = [(k, v)]"
| "map_set k v (e # es) = (if fst e = k then (k, v) # es else e # map_set k v es)"

definition map_get :: "('k, 'v) js_map \<Rightarrow> 'k \<Rightarrow> 'v option" where
  "map_get m k = map_of m k"

definition map_values :: "('k, 'v) js_map \<Rightarrow> 'v list" where
  "map_values m = map snd m"

text \<open>
  \<^verbatim>\<open>Array.prototype.sort(cmp)\<close>: a stable sort, \<open>a\<close> before \<open>b\<close> when \<open>cmp a b < 0\<close>, and
  elements that compare equal in the order they had.
\<close>

fun insert_by :: "('a \<Rightarrow> 'a \<Rightarrow> int) \<Rightarrow> 'a \<Rightarrow> 'a list \<Rightarrow> 'a list" where
  "insert_by cmp x [] = [x]"
| "insert_by cmp x (y # ys) = (if cmp x y \<le> 0 then x # y # ys else y # insert_by cmp x ys)"

definition array_sort :: "('a \<Rightarrow> 'a \<Rightarrow> int) \<Rightarrow> 'a list \<Rightarrow> 'a list" where
  "array_sort cmp xs = foldr (insert_by cmp) xs []"

text \<open>
  A number. \<open>Number q\<close> is the double nearest to the rational \<open>q\<close>, and \<open>NaN\<close> is
  \<^verbatim>\<open>NaN\<close>. The service multiplies a price by 100 and divides an amount by 100, and does
  no other arithmetic: the prices and the amounts are whole numbers far below \<open>2^53\<close>, which
  are doubles, and the product and the quotient of two doubles are the doubles nearest to
  the exact ones. A number that is \<^verbatim>\<open>undefined\<close> is \<^verbatim>\<open>NaN\<close> in arithmetic, and so is every
  product and quotient of \<^verbatim>\<open>NaN\<close>.
\<close>

datatype number = Number rat | NaN

definition to_number :: "number option \<Rightarrow> number" where
  "to_number x = (case x of None \<Rightarrow> NaN | Some n \<Rightarrow> n)"

fun times_100 :: "number \<Rightarrow> number" where
  "times_100 (Number q) = Number (q * 100)"
| "times_100 NaN = NaN"

fun div_100 :: "number \<Rightarrow> number" where
  "div_100 (Number q) = Number (q / 100)"
| "div_100 NaN = NaN"

text \<open>What a template literal prints for a value that may be \<^verbatim>\<open>undefined\<close>.\<close>

definition template_string :: "string option \<Rightarrow> string" where
  "template_string x = (case x of None \<Rightarrow> ''undefined'' | Some v \<Rightarrow> v)"

definition template_nat :: "nat option \<Rightarrow> string" where
  "template_nat x = (case x of None \<Rightarrow> ''undefined'' | Some n \<Rightarrow> dec n)"

subsection \<open>The data of the service\<close>

record razorpay_config =
  keyId :: "string option"
  keySecret :: "string option"
  webhookSecret :: "string option"
  baseUrl :: string

record plan =
  plan_questions :: nat
  plan_price :: int
  plan_name :: string

text \<open>
  What \<^verbatim>\<open>this.plans[planType]\<close> can be: a plan of the catalogue, or what the object of
  the plans inherits from \<^verbatim>\<open>Object.prototype\<close> under that name, which is a function of the
  runtime (known here by its \<^verbatim>\<open>name\<close>) or, under \<^verbatim>\<open>__proto__\<close>, the prototype itself.
\<close>

datatype plan_object = Catalog_plan plan | Builtin_function string | Object_prototype

text \<open>The properties of such a value that the service reads; the others are \<^verbatim>\<open>undefined\<close>.\<close>

definition po_price :: "plan_object \<Rightarrow> number option" where
  "po_price po =
    (case po of Catalog_plan p \<Rightarrow> Some (Number (of_int (plan_price p))) | _ \<Rightarrow> None)"

definition po_name :: "plan_object \<Rightarrow> string option" where
  "po_name po =
    (case po of
       Catalog_plan p \<Rightarrow> Some (plan_name p)
     | Builtin_function f \<Rightarrow> Some f
     | Object_prototype \<Rightarrow> None)"

definition po_questions :: "plan_object \<Rightarrow> nat option" where
  "po_questions po = (case po of Catalog_plan p \<Rightarrow> Some (plan_questions p) | _ \<Rightarrow> None)"

record user_details =
  ud_name :: "string option"
  ud_mobile :: "string option"
  ud_email :: "string option"

record order_notes_t =
  notes_userId :: string
  notes_planType :: string
  notes_userName :: string
  notes_userMobile :: string

record error_data =
  description :: "string option"

datatype order_status = Created | Paid | Failed

text \<open>
  An entry of \<^verbatim>\<open>this.orders\<close>: the \<^verbatim>\<open>orderData\<close> of \<^verbatim>\<open>createOrder\<close> with \<^verbatim>\<open>userId\<close>,
  \<^verbatim>\<open>planType\<close>, \<^verbatim>\<open>userDetails\<close> and \<^verbatim>\<open>plan\<close>, and the properties that \<^verbatim>\<open>verifyPayment\<close>
  (\<^verbatim>\<open>paymentId\<close>) and \<^verbatim>\<open>handlePaymentFailure\<close> (\<^verbatim>\<open>error\<close>, \<^verbatim>\<open>failedAt\<close>) add later.
  Amounts are whole numbers of paise; times are milliseconds (an ISO string written by
  \<^verbatim>\<open>toISOString\<close> and read back by \<^verbatim>\<open>new Date\<close> is the same millisecond), but
  \<^verbatim>\<open>created_at\<close> is in seconds. The \<^verbatim>\<open>userDetails\<close> of a stored order are never
  \<^verbatim>\<open>undefined\<close>: \<^verbatim>\<open>createOrder\<close>, the one method that adds an order, reads
  \<^verbatim>\<open>userDetails.name\<close> before it stores, and throws. So the log line of \<^verbatim>\<open>verifyPayment\<close>,
  which reads \<^verbatim>\<open>order.userDetails.name\<close> after the two maps are written, does not throw.
\<close>

record order =
  order_id :: string
  order_entity :: string
  order_amount :: number
  order_currency :: string
  order_status :: order_status
  order_attempts :: nat
  order_created_at :: nat
  order_notes :: order_notes_t
  order_userId :: string
  order_planType :: string
  order_userDetails :: user_details
  order_plan :: plan_object
  order_paymentId :: "string option"
  order_error :: "error_data option"
  order_failedAt :: "nat option"

record payment =
  payment_id :: string
  payment_orderId :: string
  payment_amount :: number
  payment_currency :: string
  payment_status :: string
  payment_method :: string
  payment_userId :: string
  payment_planType :: string
  payment_plan :: plan_object
  payment_createdAt :: nat
  payment_verifiedAt :: nat

record service =
  razorpayConfig :: razorpay_config
  orders :: "(string, order) js_map"
  payments :: "(string, payment) js_map"

text \<open>\<^verbatim>\<open>this.plans\<close>, in the order of its keys.\<close>

definition plans :: "(string \<times> plan) list" where
  "plans =
    [(''basic'', \<lparr>plan_questions = 5, plan_price = 199, plan_name = ''Basic Plan''\<rparr>),
     (''standard'', \<lparr>plan_questions = 10, plan_price = 299, plan_name = ''Standard Plan''\<rparr>),
     (''premium'', \<lparr>plan_questions = 20, plan_price = 399, plan_name = ''Premium Plan''\<rparr>),
     (''report'', \<lparr>plan_questions = 0, plan_price = 999, plan_name = ''Full Report''\<rparr>)]"

text \<open>
  The functions that every object inherits from \<^verbatim>\<open>Object.prototype\<close>: the name of the
  property and the \<^verbatim>\<open>name\<close> of the function.
\<close>

definition object_prototype_functions :: "(string \<times> string) list" where
  "object_prototype_functions =
    [(''constructor'', ''Object''),
     (''__defineGetter__'', ''__defineGetter__''),
     (''__defineSetter__'', ''__defineSetter__''),
     (''hasOwnProperty'', ''hasOwnProperty''),
     (''__lookupGetter__'', ''__lookupGetter__''),
     (''__lookupSetter__'', ''__lookupSetter__''),
     (''isPrototypeOf'', ''isPrototypeOf''),
     (''propertyIsEnumerable'', ''propertyIsEnumerable''),
     (''toString'', ''toString''),
     (''valueOf'', ''valueOf''),
     (''toLocaleString'', ''toLocaleString'')]"

text \<open>
  \<^verbatim>\<open>this.plans[planType]\<close>: the own property when there is one, else what the prototype
  chain gives, else \<^verbatim>\<open>undefined\<close>. Every value it finds is truthy.
\<close>

definition plans_get :: "string \<Rightarrow> plan_object option" where
  "plans_get planType =
    (case map_of plans planType of
       Some p \<Rightarrow> Some (Catalog_plan p)
     | None \<Rightarrow>
        (case map_of object_prototype_functions planType of
           Some f \<Rightarrow> Some (Builtin_function f)
         | None \<Rightarrow> if planType = ''__proto__'' then Some Object_prototype else None))"

text \<open>The constructor: the configuration is what the environment holds.\<close>

definition new_PaymentService ::
  "string option \<Rightarrow> string option \<Rightarrow> string option \<Rightarrow> service" where
  "new_PaymentService key_id key_secret webhook_secret =
    \<lparr>razorpayConfig =
       \<lparr>keyId = key_id, keySecret = key_secret, webhookSecret = webhook_secret,
        baseUrl = ''https://api.razorpay.com/v1''\<rparr>,
     orders = [], payments = []\<rparr>"

text \<open>
  \<^verbatim>\<open>try { ... } catch (error) { throw new Error(`${prefix}${error.message}`) }\<close> around
  a body that ends in a value or an error, in the state it has reached.
\<close>

definition catch_rethrow :: "string \<Rightarrow> (error + 'a) \<times> service \<Rightarrow> (error + 'a) \<times> service" where
  "catch_rethrow prefix r =
    (case fst r of Inl e \<Rightarrow> (Inl (Rethrown prefix e), snd r) | Inr v \<Rightarrow> (Inr v, snd r))"

text \<open>
  \<^verbatim>\<open>crypto.createHmac('sha256', key).update(msg).digest('hex')\<close>: a key that is
  \<^verbatim>\<open>undefined\<close> is refused with a \<^verbatim>\<open>TypeError\<close>.
\<close>

definition createHmac ::
  "(string \<Rightarrow> string \<Rightarrow> string) \<Rightarrow> string option \<Rightarrow> string \<Rightarrow> error + string" where
  "createHmac hmac key msg =
    (case key of None \<Rightarrow> Inl (TypeError Invalid_key_argument) | Some k \<Rightarrow> Inr (hmac k msg))"

subsection \<open>createOrder\<close>

record prefill =
  prefill_name :: string
  prefill_contact :: string
  prefill_email :: string

text \<open>
  The \<^verbatim>\<open>order\<close> of the response. Its \<^verbatim>\<open>image\<close>, \<^verbatim>\<open>theme\<close> and \<^verbatim>\<open>modal\<close> are constants of
  the page that shows the payment prompt and are left out.
\<close>

record order_descriptor =
  od_id :: string
  od_amount :: number
  od_currency :: string
  od_key :: "string option"
  od_name :: string
  od_description :: string
  od_prefill :: prefill

record create_response =
  cr_success :: bool
  cr_order :: order_descriptor

definition createOrder ::
  "nat \<Rightarrow> string \<Rightarrow> nat \<Rightarrow> string \<Rightarrow> string \<Rightarrow> user_details option \<Rightarrow> service
    \<Rightarrow> (error + create_response) \<times> service" where
  "createOrder now_id rnd now_created userId planType userDetails s =
    catch_rethrow ''Failed to create payment order: ''
      (case plans_get planType of
         None \<Rightarrow> (Inl (Error ''Invalid plan type''), s)
       | Some plan \<Rightarrow>
          (case userDetails of
             None \<Rightarrow> (Inl (TypeError (Cannot_read_property ''name'')), s)
           | Some ud \<Rightarrow>
              let orderId = ''order_'' @ dec now_id @ ''_'' @ rnd;
                  stored =
                    \<lparr>order_id = orderId,
                     order_entity = ''order'',
                     order_amount = times_100 (to_number (po_price plan)),
                     order_currency = ''INR'',
                     order_status = Created,
                     order_attempts = 0,
                     order_created_at = now_created div 1000,
                     order_notes =
                       \<lparr>notes_userId = userId,
                        notes_planType = planType,
                        notes_userName = or_else (ud_name ud) ''User'',
                        notes_userMobile = or_else (ud_mobile ud) []\<rparr>,
                     order_userId = userId,
                     order_planType = planType,
                     order_userDetails = ud,
                     order_plan = plan,
                     order_paymentId = None,
                     order_error = None,
                     order_failedAt = None\<rparr>
              in (Inr
                    \<lparr>cr_success = True,
                     cr_order =
                       \<lparr>od_id = orderId,
                        od_amount = times_100 (to_number (po_price plan)),
                        od_currency = ''INR'',
                        od_key = keyId (razorpayConfig s),
                        od_name = ''ChatAstro'',
                        od_description =
                          template_string (po_name plan) @ '' - '' @
                          template_nat (po_questions plan) @ '' Questions'',
                        od_prefill =
                          \<lparr>prefill_name = or_else (ud_name ud) [],
                           prefill_contact = or_else (ud_mobile ud) [],
                           prefill_email = or_else (ud_email ud) []\<rparr>\<rparr>\<rparr>,
                  s\<lparr>orders := map_set orderId stored (orders s)\<rparr>)))"

subsection \<open>verifyPayment\<close>

record payment_data =
  razorpay_order_id :: "string option"
  razorpay_payment_id :: "string option"
  razorpay_signature :: "string option"

record verify_response =
  vr_success :: bool
  vr_payment :: payment
  vr_order :: order

text \<open>The \<^verbatim>\<open>paymentRecord\<close> that \<^verbatim>\<open>verifyPayment\<close> builds, from the order it has looked up.\<close>

definition paymentRecord :: "string \<Rightarrow> string \<Rightarrow> order \<Rightarrow> nat \<Rightarrow> nat \<Rightarrow> payment" where
  "paymentRecord pid oid order now_created now_verified =
    \<lparr>payment_id = pid,
     payment_orderId = oid,
     payment_amount = order_amount order,
     payment_currency = order_currency order,
     payment_status = ''captured'',
     payment_method = ''card'',
     payment_userId = order_userId order,
     payment_planType = order_planType order,
     payment_plan = order_plan order,
     payment_createdAt = now_created,
     payment_verifiedAt = now_verified\<rparr>"

text \<open>
  \<^verbatim>\<open>paymentData\<close> is any object: the method reads these three properties of it and no
  other, whatever else the client has put there.
\<close>

definition verifyPayment ::
  "(string \<Rightarrow> string \<Rightarrow> string) \<Rightarrow> nat \<Rightarrow> nat \<Rightarrow> 'a payment_data_scheme \<Rightarrow> service
    \<Rightarrow> (error + verify_response) \<times> service" where
  "verifyPayment hmac now_created now_verified paymentData s =
    catch_rethrow ''Payment verification failed: ''
      (case (razorpay_order_id paymentData, razorpay_payment_id paymentData,
             razorpay_signature paymentData) of
         (Some oid, Some pid, Some sig) \<Rightarrow>
           if oid = [] \<or> pid = [] \<or> sig = []
           then (Inl (Error ''Missing payment verification data''), s)
           else
             (case map_get (orders s) oid of
                None \<Rightarrow> (Inl (Error ''Order not found''), s)
              | Some order \<Rightarrow>
                 (case createHmac hmac (keySecret (razorpayConfig s)) (oid @ ''|'' @ pid) of
                    Inl e \<Rightarrow> (Inl e, s)
                  | Inr generated_signature \<Rightarrow>
                     if generated_signature \<noteq> sig
                     then (Inl (Error ''Invalid payment signature''), s)
                     else
                       let payrec = paymentRecord pid oid order now_created now_verified;
                           s1 = s\<lparr>payments := map_set pid payrec (payments s)\<rparr>;
                           order1 = order\<lparr>order_status := Paid, order_paymentId := Some pid\<rparr>;
                           s2 = s1\<lparr>orders := map_set oid order1 (orders s1)\<rparr>
                       in (Inr \<lparr>vr_success = True, vr_payment = payrec, vr_order = order1\<rparr>,
                           s2)))
       | _ \<Rightarrow> (Inl (Error ''Missing payment verification data''), s))"

subsection \<open>handlePaymentFailure\<close>

record failure_response =
  fr_success :: bool
  fr_message :: string
  fr_error :: error_data

text \<open>
  The order, when there is one, is marked before the log line is built; the log line
  reads \<^verbatim>\<open>errorData.description\<close>, which throws on an \<^verbatim>\<open>errorData\<close> that is
  \<^verbatim>\<open>undefined\<close>, and the \<^verbatim>\<open>catch\<close> block throws the same error again.
\<close>

definition handlePaymentFailure ::
  "nat \<Rightarrow> string \<Rightarrow> error_data option \<Rightarrow> service \<Rightarrow> (error + failure_response) \<times> service" where
  "handlePaymentFailure now orderId errorData s =
    (let s1 =
       (case map_get (orders s) orderId of
          None \<Rightarrow> s
        | Some order \<Rightarrow>
            s\<lparr>orders :=
                map_set orderId
                  (order\<lparr>order_status := Failed, order_error := errorData,
                         order_failedAt := Some now\<rparr>)
                  (orders s)\<rparr>)
     in (case errorData of
           None \<Rightarrow> (Inl (TypeError (Cannot_read_property ''description'')), s1)
         | Some e \<Rightarrow>
            (Inr \<lparr>fr_success = False, fr_message = ''Payment failed. Please try again.'',
                  fr_error = e\<rparr>, s1)))"

subsection \<open>getPaymentStatus and getUserPayments\<close>

record status_order =
  so_id :: string
  so_amount :: number
  so_status :: order_status
  so_createdAt :: nat

record status_payment =
  sp_id :: string
  sp_status :: string
  sp_method :: string
  sp_verifiedAt :: nat

record payment_status =
  ps_order :: status_order
  ps_payment :: "status_payment option"

definition getPaymentStatus :: "service \<Rightarrow> string \<Rightarrow> payment_status option" where
  "getPaymentStatus s orderId =
    (case map_get (orders s) orderId of
       None \<Rightarrow> None
     | Some order \<Rightarrow>
        let payment =
              (if falsy (order_paymentId order) then None
               else (case order_paymentId order of
                       None \<Rightarrow> None
                     | Some pid \<Rightarrow> map_get (payments s) pid))
        in Some
             \<lparr>ps_order =
                \<lparr>so_id = order_id order, so_amount = order_amount order,
                 so_status = order_status order, so_createdAt = order_created_at order\<rparr>,
              ps_payment =
                (case payment of
                   None \<Rightarrow> None
                 | Some p \<Rightarrow>
                     Some \<lparr>sp_id = payment_id p, sp_status = payment_status p,
                           sp_method = payment_method p,
                           sp_verifiedAt = payment_verifiedAt p\<rparr>)\<rparr>)"

text \<open>
  An entry of the history. Its amount is \<^verbatim>\<open>payment.amount / 100\<close>; the name and the
  questions are those of \<^verbatim>\<open>payment.plan\<close>, \<^verbatim>\<open>undefined\<close> where it has none.
\<close>

record history_entry =
  he_id :: string
  he_orderId :: string
  he_amount :: number
  he_planType :: string
  he_planName :: "string option"
  he_questions :: "nat option"
  he_status :: string
  he_createdAt :: nat

definition history_entry_of :: "payment \<Rightarrow> history_entry" where
  "history_entry_of p =
    \<lparr>he_id = payment_id p,
     he_orderId = payment_orderId p,
     he_amount = div_100 (payment_amount p),
     he_planType = payment_planType p,
     he_planName = po_name (payment_plan p),
     he_questions = po_questions (payment_plan p),
     he_status = payment_status p,
     he_createdAt = payment_createdAt p\<rparr>"

text \<open>The comparison \<^verbatim>\<open>(a, b) => new Date(b.createdAt) - new Date(a.createdAt)\<close>.\<close>

definition by_createdAt_desc :: "history_entry \<Rightarrow> history_entry \<Rightarrow> int" where
  "by_createdAt_desc a b = int (he_createdAt b) - int (he_createdAt a)"

definition getUserPayments :: "service \<Rightarrow> string \<Rightarrow> history_entry list" where
  "getUserPayments s userId =
    array_sort by_createdAt_desc
      (map history_entry_of
         (filter (\<lambda>p. payment_userId p = userId) (map_values (payments s))))"

subsection \<open>validateWebhook and processWebhook\<close>

definition validateWebhook ::
  "(string \<Rightarrow> string \<Rightarrow> string) \<Rightarrow> service \<Rightarrow> string \<Rightarrow> string \<Rightarrow> bool" where
  "validateWebhook hmac s body signature =
    (case createHmac hmac (webhookSecret (razorpayConfig s)) body of
       Inl e \<Rightarrow> False
     | Inr generated_signature \<Rightarrow> generated_signature = signature)"

record webhook_entity =
  entity_id :: "string option"
  entity_order_id :: "string option"

record entity_holder =
  entity :: "webhook_entity option"

record webhook_payload =
  payload_payment :: "entity_holder option"
  payload_order :: "entity_holder option"

record event_data =
  event :: string
  payload :: "webhook_payload option"

record webhook_response =
  wr_success :: bool

text \<open>
  \<^verbatim>\<open>this.handler(payload.x.entity)\<close> for a \<^verbatim>\<open>handler\<close> that the class does not define:
  the argument is evaluated first, and throws when \<^verbatim>\<open>payload\<close> or \<^verbatim>\<open>payload.x\<close> is
  \<^verbatim>\<open>undefined\<close>; then the call throws, \<^verbatim>\<open>this.handler\<close> not being a function.
\<close>

definition call_undefined_method ::
  "string \<Rightarrow> string \<Rightarrow> webhook_payload option \<Rightarrow> (webhook_payload \<Rightarrow> entity_holder option)
    \<Rightarrow> error" where
  "call_undefined_method handler x p sel =
    (case p of
       None \<Rightarrow> TypeError (Cannot_read_property x)
     | Some pl \<Rightarrow>
        (case sel pl of
           None \<Rightarrow> TypeError (Cannot_read_property ''entity'')
         | Some h \<Rightarrow> TypeError (Not_a_function handler)))"

text \<open>
  The class defines none of \<^verbatim>\<open>handlePaymentCaptured\<close>, \<^verbatim>\<open>handlePaymentFailed\<close> and
  \<^verbatim>\<open>handleOrderPaid\<close>; the \<^verbatim>\<open>catch\<close> block throws the error again as it is.
\<close>

definition processWebhook :: "event_data \<Rightarrow> service \<Rightarrow> (error + webhook_response) \<times> service" where
  "processWebhook eventData s =
    (if event eventData = ''payment.captured''
     then (Inl (call_undefined_method ''handlePaymentCaptured'' ''payment''
                  (payload eventData) payload_payment), s)
     else if event eventData = ''payment.failed''
     then (Inl (call_undefined_method ''handlePaymentFailed'' ''payment''
                  (payload eventData) payload_payment), s)
     else if event eventData = ''order.paid''
     then (Inl (call_undefined_method ''handleOrderPaid'' ''order''
                  (payload eventData) payload_order), s)
     else (Inr \<lparr>wr_success = True\<rparr>, s))"

subsection \<open>getPlanDetails and getAllPlans\<close>

record plan_listing =
  pl_id :: string
  pl_questions :: nat
  pl_price :: int
  pl_name :: string

definition getPlanDetails :: "string \<Rightarrow> plan_object option" where
  "getPlanDetails planType = plans_get planType"

definition getAllPlans :: "plan_listing list" where
  "getAllPlans =
    map (\<lambda>(key, p). \<lparr>pl_id = key, pl_questions = plan_questions p, pl_price = plan_price p,
                      pl_name = plan_name p\<rparr>) plans"

subsection \<open>Runs of the service\<close>

text \<open>
  The methods that change the service, as operations with the readings each one takes,
  and the services that a run of operations reaches from a new one.
\<close>

datatype operation =
    CreateOrder nat string nat string string "user_details option"
  | VerifyPayment nat nat payment_data
  | HandlePaymentFailure nat string "error_data option"
  | ProcessWebhook event_data

fun perform :: "(string \<Rightarrow> string \<Rightarrow> string) \<Rightarrow> operation \<Rightarrow> service \<Rightarrow> service" where
  "perform hmac (CreateOrder now_id rnd now_created userId planType userDetails) s =
     snd (createOrder now_id rnd now_created userId planType userDetails s)"
| "perform hmac (VerifyPayment now_created now_verified paymentData) s =
     snd (verifyPayment hmac now_created now_verified paymentData s)"
| "perform hmac (HandlePaymentFailure now orderId errorData) s =
     snd (handlePaymentFailure now orderId errorData s)"
| "perform hmac (ProcessWebhook eventData) s = snd (processWebhook eventData s)"

inductive reachable :: "(string \<Rightarrow> string \<Rightarrow> string) \<Rightarrow> service \<Rightarrow> bool"
  for hmac :: "string \<Rightarrow> string \<Rightarrow> string" where
  reachable_new: "reachable hmac (new_PaymentService key_id key_secret webhook_secret)"
| reachable_perform: "reachable hmac s \<Longrightarrow> reachable hmac (perform hmac op s)"

subsection \<open>A scenario\<close>

text \<open>
  The scenario of the specification: an order of plan \<^verbatim>\<open>standard\<close> for user \<^verbatim>\<open>u1\<close>,
  confirmed, or reported as failed. The digest of the scenario is a stand-in that keeps
  key and message apart; the theorems below hold for every digest function.
\<close>

definition example_hmac :: "string \<Rightarrow> string \<Rightarrow> string" where
  "example_hmac key msg = key @ ''#'' @ msg"

definition example_user :: user_details where
  "example_user = \<lparr>ud_name = Some ''Asha'', ud_mobile = None, ud_email = Some []\<rparr>"

definition service_new :: service where
  "service_new = new_PaymentService (Some ''rzp_test'') (Some ''secret'') (Some ''whsec'')"

definition service_created :: service where
  "service_created =
    snd (createOrder 1000 ''abc'' 1999 ''u1'' ''standard'' (Some example_user) service_new)"

definition example_order :: order where
  "example_order =
    \<lparr>order_id = ''order_1000_abc'', order_entity = ''order'', order_amount = Number 29900,
     order_currency = ''INR'', order_status = Created, order_attempts = 0,
     order_created_at = 1,
     order_notes =
       \<lparr>notes_userId = ''u1'', notes_planType = ''standard'', notes_userName = ''Asha'',
        notes_userMobile = []\<rparr>,
     order_userId = ''u1'', order_planType = ''standard'', order_userDetails = example_user,
     order_plan =
       Catalog_plan \<lparr>plan_questions = 10, plan_price = 299, plan_name = ''Standard Plan''\<rparr>,
     order_paymentId = None, order_error = None, order_failedAt = None\<rparr>"

definition example_confirmation :: payment_data where
  "example_confirmation =
    \<lparr>razorpay_order_id = Some ''order_1000_abc'', razorpay_payment_id = Some ''pay_1'',
     razorpay_signature = Some (example_hmac ''secret'' ''order_1000_abc|pay_1'')\<rparr>"

text \<open>The same confirmation from a client that also names an amount of its own.\<close>

record payment_data_with_amount = payment_data +
  amount :: int

definition tampered_confirmation :: payment_data_with_amount where
  "tampered_confirmation = payment_data.extend example_confirmation \<lparr>amount = 1\<rparr>"

definition example_payment :: payment where
  "example_payment =
    \<lparr>payment_id = ''pay_1'', payment_orderId = ''order_1000_abc'',
     payment_amount = Number 29900,
     payment_currency = ''INR'', payment_status = ''captured'', payment_method = ''card'',
     payment_userId = ''u1'', payment_planType = ''standard'',
     payment_plan =
       Catalog_plan \<lparr>plan_questions = 10, plan_price = 299, plan_name = ''Standard Plan''\<rparr>,
     payment_createdAt = 5000, payment_verifiedAt = 5001\<rparr>"

definition service_paid :: service where
  "service_paid = snd (verifyPayment example_hmac 5000 5001 example_confirmation service_created)"

definition example_error :: error_data where
  "example_error = \<lparr>description = Some ''Card declined''\<rparr>"

definition service_failed :: service where
  "service_failed =
    snd (handlePaymentFailure 4000 ''order_1000_abc'' (Some example_error) service_created)"

text \<open>Webhook events of the gateway for the order and the payment of the scenario.\<close>

definition example_payload :: webhook_payload where
  "example_payload =
    \<lparr>payload_payment =
       Some \<lparr>entity = Some \<lparr>entity_id = Some ''pay_1'',
                             entity_order_id = Some ''order_1000_abc''\<rparr>\<rparr>,
     payload_order =
       Some \<lparr>entity = Some \<lparr>entity_id = Some ''order_1000_abc'', entity_order_id = None\<rparr>\<rparr>\<rparr>"

definition payment_captured_event :: event_data where
  "payment_captured_event = \<lparr>event = ''payment.captured'', payload = Some example_payload\<rparr>"

definition order_paid_event :: event_data where
  "order_paid_event = \<lparr>event = ''order.paid'', payload = Some example_payload\<rparr>"

text \<open>
  A service that holds four payments, three of user \<^verbatim>\<open>u1\<close>, stored in another order
  than they were created in.
\<close>

definition history_payment :: "string \<Rightarrow> string \<Rightarrow> nat \<Rightarrow> payment" where
  "history_payment pid uid t =
    paymentRecord pid ''order_1000_abc'' (example_order\<lparr>order_userId := uid\<rparr>) t t"

definition service_history :: service where
  "service_history =
    service_new\<lparr>payments :=
      [(''pay_b'', history_payment ''pay_b'' ''u1'' 200),
       (''pay_x'', history_payment ''pay_x'' ''u2'' 250),
       (''pay_c'', history_payment ''pay_c'' ''u1'' 300),
       (''pay_a'', history_payment ''pay_a'' ''u1'' 100)]\<rparr>"

section \<open>Properties\<close>

subsection \<open>Maps\<close>

lemma map_get_map_set: "map_get (map_set k v m) k' = (if k' = k then Some v else map_get m k')"
  by (induction m) (auto simp: map_get_def)

lemma map_set_same: "map_get m k = Some v \<Longrightarrow> map_set k v m = m"
  by (induction m) (auto simp: map_get_def split: if_splits)

lemma map_set_twice: "map_set k w (map_set k v m) = map_set k w m"
  by (induction m) auto

lemma keys_map_set:
  "map fst (map_set k v m) = (if k \<in> set (map fst m) then map fst m else map fst m @ [k])"
  by (induction m) auto

lemma distinct_keys_map_set: "distinct (map fst m) \<Longrightarrow> distinct (map fst (map_set k v m))"
  by (simp add: keys_map_set)

lemma map_set_new: "map_get m k = None \<Longrightarrow> map_set k v m = m @ [(k, v)]"
  by (induction m) (auto simp: map_get_def split: if_splits)

lemma map_set_entry: "(k, v) \<in> set (map_set k v m)"
  by (induction m) auto

lemma count_key_map_set:
  "distinct (map fst m) \<Longrightarrow> length (filter (\<lambda>e. fst e = k) (map_set k v m)) = 1"
proof (induction m)
  case Nil
  then show ?case by simp
next
  case (Cons e m)
  have "fst e = k \<Longrightarrow> filter (\<lambda>e. fst e = k) m = []"
    using Cons.prems by (auto simp: filter_empty_conv image_iff)
  with Cons show ?case by auto
qed

subsection \<open>The scenario, evaluated\<close>

lemma service_created_eq:
  "service_created = service_new\<lparr>orders := [(''order_1000_abc'', example_order)]\<rparr>"
  by (simp add: service_created_def createOrder_def service_new_def new_PaymentService_def
      plans_get_def plans_def po_price_def po_name_def po_questions_def to_number_def
      template_string_def template_nat_def catch_rethrow_def digit_def or_else_def falsy_def
      example_order_def example_user_def Let_def)

lemma service_paid_eq:
  "service_paid =
    service_new\<lparr>orders := [(''order_1000_abc'',
                     example_order\<lparr>order_status := Paid, order_paymentId := Some ''pay_1''\<rparr>)],
                payments := [(''pay_1'', example_payment)]\<rparr>"
  by (simp add: service_paid_def service_created_eq verifyPayment_def service_new_def
      new_PaymentService_def catch_rethrow_def createHmac_def example_confirmation_def
      example_hmac_def map_get_def example_order_def example_payment_def Let_def
      paymentRecord_def)

lemma service_failed_eq:
  "service_failed =
    service_new\<lparr>orders := [(''order_1000_abc'',
                     example_order\<lparr>order_status := Failed, order_error := Some example_error,
                       order_failedAt := Some 4000\<rparr>)]\<rparr>"
  by (simp add: service_failed_def service_created_eq handlePaymentFailure_def service_new_def
      new_PaymentService_def map_get_def Let_def)

subsection \<open>verifyPayment\<close>

text \<open>
  The one path on which \<^verbatim>\<open>verifyPayment\<close> returns: the three fields are there and not
  empty, the order is stored, the key is configured and the signature is the digest of
  \<^verbatim>\<open>orderId|paymentId\<close>.
\<close>

lemma verifyPayment_valid:
  assumes "razorpay_order_id pd = Some oid" "razorpay_payment_id pd = Some pid"
    "razorpay_signature pd = Some sig" "oid \<noteq> []" "pid \<noteq> []" "sig \<noteq> []"
    "map_get (orders s) oid = Some ord" "keySecret (razorpayConfig s) = Some k"
    "sig = hmac k (oid @ ''|'' @ pid)"
  shows "verifyPayment hmac tc tv pd s =
    (Inr \<lparr>vr_success = True, vr_payment = paymentRecord pid oid ord tc tv,
          vr_order = ord\<lparr>order_status := Paid, order_paymentId := Some pid\<rparr>\<rparr>,
     s\<lparr>payments := map_set pid (paymentRecord pid oid ord tc tv) (payments s),
        orders := map_set oid (ord\<lparr>order_status := Paid, order_paymentId := Some pid\<rparr>) (orders s)\<rparr>)"
  using assms by (simp add: verifyPayment_def catch_rethrow_def createHmac_def Let_def)

lemma verifyPayment_InrD:
  assumes "fst (verifyPayment hmac tc tv pd s) = Inr r"
  shows "\<exists>oid pid sig ord k.
    razorpay_order_id pd = Some oid \<and> razorpay_payment_id pd = Some pid \<and>
    razorpay_signature pd = Some sig \<and> oid \<noteq> [] \<and> pid \<noteq> [] \<and> sig \<noteq> [] \<and>
    map_get (orders s) oid = Some ord \<and> keySecret (razorpayConfig s) = Some k \<and>
    sig = hmac k (oid @ ''|'' @ pid)"
  using assms
  by (auto simp: verifyPayment_def catch_rethrow_def createHmac_def
      split: option.splits if_splits sum.splits)

text \<open>
  C3. A confirmation that carries its three fields, for an order that is stored, with a
  signature that is not the digest of \<^verbatim>\<open>orderId|paymentId\<close> under the configured key
  secret (a digest under another secret, or of another pair): \<^verbatim>\<open>verifyPayment\<close> throws
  \<^verbatim>\<open>Payment verification failed: Invalid payment signature\<close>, whatever the clock reads, and
  the service is the one it was: no payment is stored and the order is unchanged, so an
  order that was \<^verbatim>\<open>created\<close> still is.
\<close>

theorem verifyPayment_invalid_signature:
  assumes "map_get (orders s) oid = Some ord"
    and "razorpay_order_id pd = Some oid" and "razorpay_payment_id pd = Some pid"
    and "razorpay_signature pd = Some sig"
    and "oid \<noteq> []" and "pid \<noteq> []" and "sig \<noteq> []"
    and "keySecret (razorpayConfig s) = Some k"
    and "sig \<noteq> hmac k (oid @ ''|'' @ pid)"
  shows "verifyPayment hmac tc tv pd s =
      (Inl (Rethrown ''Payment verification failed: '' (Error ''Invalid payment signature'')), s)
    \<and> payments (snd (verifyPayment hmac tc tv pd s)) = payments s
    \<and> map_get (orders (snd (verifyPayment hmac tc tv pd s))) oid = Some ord"
proof -
  from assms(9) have differs: "hmac k (oid @ ''|'' @ pid) \<noteq> sig"
    by blast
  have "verifyPayment hmac tc tv pd s =
      (Inl (Rethrown ''Payment verification failed: '' (Error ''Invalid payment signature'')), s)"
    using assms(1-8) differs
    by (simp add: verifyPayment_def catch_rethrow_def createHmac_def)
  with assms(1) show ?thesis
    by simp
qed

theorem verifyPayment_invalid_signature_witness:
  "verifyPayment example_hmac 5000 5001
      (example_confirmation\<lparr>razorpay_signature :=
         Some (example_hmac ''another secret'' ''order_1000_abc|pay_1'')\<rparr>) service_created =
      (Inl (Rethrown ''Payment verification failed: '' (Error ''Invalid payment signature'')),
       service_created)
    \<and> payments service_created = []
    \<and> map_get (orders service_created) ''order_1000_abc'' = Some example_order
    \<and> order_status example_order = Created"
proof -
  have stored: "map_get (orders service_created) ''order_1000_abc'' = Some example_order"
    by (simp add: service_created_eq map_get_def)
  have key: "keySecret (razorpayConfig service_created) = Some ''secret''"
    by (simp add: service_created_eq service_new_def new_PaymentService_def)
  have forged: "example_hmac ''another secret'' ''order_1000_abc|pay_1''
      \<noteq> example_hmac ''secret'' (''order_1000_abc'' @ ''|'' @ ''pay_1'')"
    by (simp add: example_hmac_def)
  have nonempty: "example_hmac ''another secret'' ''order_1000_abc|pay_1'' \<noteq> []"
    by (simp add: example_hmac_def)
  have payments_none: "payments service_created = []"
    by (simp add: service_created_eq service_new_def new_PaymentService_def)
  have status: "order_status example_order = Created"
    by (simp add: example_order_def)
  show ?thesis
    using verifyPayment_invalid_signature [of service_created "''order_1000_abc''" example_order
        "example_confirmation\<lparr>razorpay_signature :=
           Some (example_hmac ''another secret'' ''order_1000_abc|pay_1'')\<rparr>"
        "''pay_1''" "example_hmac ''another secret'' ''order_1000_abc|pay_1''" "''secret''"
        example_hmac 5000 5001, OF stored _ _ _ _ _ nonempty key forged]
      stored payments_none status
    by (simp add: example_confirmation_def)
qed

text \<open>
  C8. A confirmation that carries its three fields, for an order id that the order map
  does not hold: \<^verbatim>\<open>verifyPayment\<close> throws \<^verbatim>\<open>Payment verification failed: Order not found\<close>
  for every signature, every digest function and every key secret, also one that is not
  configured, so before any digest is computed; the service is the one it was.
\<close>

theorem verifyPayment_order_not_found:
  assumes "map_get (orders s) oid = None"
    and "razorpay_order_id pd = Some oid" and "razorpay_payment_id pd = Some pid"
    and "razorpay_signature pd = Some sig"
    and "oid \<noteq> []" and "pid \<noteq> []" and "sig \<noteq> []"
  shows "verifyPayment hmac tc tv pd s =
      (Inl (Rethrown ''Payment verification failed: '' (Error ''Order not found'')), s)"
  using assms by (simp add: verifyPayment_def catch_rethrow_def)

theorem verifyPayment_order_not_found_witness:
  "verifyPayment example_hmac 5000 5001
      (example_confirmation\<lparr>razorpay_order_id := Some ''order_7_zzz''\<rparr>) service_created =
      (Inl (Rethrown ''Payment verification failed: '' (Error ''Order not found'')),
       service_created)
    \<and> map_get (orders service_created) ''order_7_zzz'' = None"
proof -
  have absent: "map_get (orders service_created) ''order_7_zzz'' = None"
    by (simp add: service_created_eq map_get_def)
  show ?thesis
    using verifyPayment_order_not_found [of service_created "''order_7_zzz''"
        "example_confirmation\<lparr>razorpay_order_id := Some ''order_7_zzz''\<rparr>" "''pay_1''"
        "example_hmac ''secret'' ''order_1000_abc|pay_1''" example_hmac 5000 5001, OF absent]
    by (simp add: example_confirmation_def example_hmac_def absent)
qed


subsection \<open>Amounts\<close>

lemma createOrder_standard:
  "createOrder now_id rnd now_created userId ''standard'' (Some ud) s =
    (Inr \<lparr>cr_success = True,
          cr_order =
            \<lparr>od_id = ''order_'' @ dec now_id @ ''_'' @ rnd, od_amount = Number 29900,
             od_currency = ''INR'', od_key = keyId (razorpayConfig s), od_name = ''ChatAstro'',
             od_description = ''Standard Plan - 10 Questions'',
             od_prefill =
               \<lparr>prefill_name = or_else (ud_name ud) [],
                prefill_contact = or_else (ud_mobile ud) [],
                prefill_email = or_else (ud_email ud) []\<rparr>\<rparr>\<rparr>,
     s\<lparr>orders :=
          map_set (''order_'' @ dec now_id @ ''_'' @ rnd)
            \<lparr>order_id = ''order_'' @ dec now_id @ ''_'' @ rnd, order_entity = ''order'',
             order_amount = Number 29900, order_currency = ''INR'', order_status = Created,
             order_attempts = 0, order_created_at = now_created div 1000,
             order_notes =
               \<lparr>notes_userId = userId, notes_planType = ''standard'',
                notes_userName = or_else (ud_name ud) ''User'',
                notes_userMobile = or_else (ud_mobile ud) []\<rparr>,
             order_userId = userId, order_planType = ''standard'', order_userDetails = ud,
             order_plan =
               Catalog_plan
                 \<lparr>plan_questions = 10, plan_price = 299, plan_name = ''Standard Plan''\<rparr>,
             order_paymentId = None, order_error = None, order_failedAt = None\<rparr>
            (orders s)\<rparr>)"
proof -
  have "dec 10 = ''10''"
    by (simp add: digit_def)
  then show ?thesis
    by (simp add: createOrder_def plans_get_def plans_def po_price_def po_name_def
        po_questions_def to_number_def template_string_def template_nat_def catch_rethrow_def
        Let_def del: dec.simps)
qed

text \<open>
  C6. Whenever \<^verbatim>\<open>verifyPayment\<close> returns, the payment it has stored under the payment id
  and the order it has stored carry the amount and the currency of the order that was
  stored under the order id before the call; the confirmation, whatever it holds besides
  its ids and its signature, gives none of them. And \<^verbatim>\<open>createOrder\<close> for plan
  \<^verbatim>\<open>standard\<close> returns and stores an order of amount 29900 in status \<^verbatim>\<open>created\<close>, whose
  confirmation under the configured key secret stores a payment of amount 29900 (for a
  payment id and a digest that are not the empty string, which the method takes for
  missing).
\<close>

theorem payment_amount_is_order_amount:
  "(fst (verifyPayment hmac tc tv pd s) = Inr r \<longrightarrow>
      (\<exists>oid pid ord.
         razorpay_order_id pd = Some oid \<and> razorpay_payment_id pd = Some pid \<and>
         map_get (orders s) oid = Some ord \<and>
         map_get (payments (snd (verifyPayment hmac tc tv pd s))) pid = Some (vr_payment r) \<and>
         map_get (orders (snd (verifyPayment hmac tc tv pd s))) oid = Some (vr_order r) \<and>
         payment_amount (vr_payment r) = order_amount ord \<and>
         payment_currency (vr_payment r) = order_currency ord \<and>
         order_amount (vr_order r) = order_amount ord \<and>
         order_currency (vr_order r) = order_currency ord))
   \<and> (\<exists>resp ord.
         fst (createOrder now_id rnd now_created userId ''standard'' (Some ud) s) = Inr resp \<and>
         od_amount (cr_order resp) = Number 29900 \<and>
         map_get (orders (snd (createOrder now_id rnd now_created userId ''standard'' (Some ud) s)))
           (od_id (cr_order resp)) = Some ord \<and>
         order_amount ord = Number 29900 \<and> order_status ord = Created \<and>
         (keySecret (razorpayConfig s) = Some k \<and> pid' \<noteq> [] \<and>
          hmac k (od_id (cr_order resp) @ ''|'' @ pid') \<noteq> [] \<longrightarrow>
          (\<exists>r' s'.
             verifyPayment hmac tc tv
               \<lparr>razorpay_order_id = Some (od_id (cr_order resp)),
                razorpay_payment_id = Some pid',
                razorpay_signature = Some (hmac k (od_id (cr_order resp) @ ''|'' @ pid'))\<rparr>
               (snd (createOrder now_id rnd now_created userId ''standard'' (Some ud) s))
               = (Inr r', s') \<and>
             map_get (payments s') pid' = Some (vr_payment r') \<and>
             payment_amount (vr_payment r') = Number 29900 \<and>
             order_status (vr_order r') = Paid \<and> order_amount (vr_order r') = Number 29900)))"
proof (intro conjI impI)
  assume ok: "fst (verifyPayment hmac tc tv pd s) = Inr r"
  from verifyPayment_InrD [OF ok] obtain oid pid sig ord k where c:
    "razorpay_order_id pd = Some oid" "razorpay_payment_id pd = Some pid"
    "razorpay_signature pd = Some sig" "oid \<noteq> []" "pid \<noteq> []" "sig \<noteq> []"
    "map_get (orders s) oid = Some ord" "keySecret (razorpayConfig s) = Some k"
    "sig = hmac k (oid @ ''|'' @ pid)"
    by blast
  note v = verifyPayment_valid [where hmac = hmac and tc = tc and tv = tv, OF c]
  from ok have r: "r = \<lparr>vr_success = True, vr_payment = paymentRecord pid oid ord tc tv,
          vr_order = ord\<lparr>order_status := Paid, order_paymentId := Some pid\<rparr>\<rparr>"
    by (simp add: v)
  show "\<exists>oid pid ord.
         razorpay_order_id pd = Some oid \<and> razorpay_payment_id pd = Some pid \<and>
         map_get (orders s) oid = Some ord \<and>
         map_get (payments (snd (verifyPayment hmac tc tv pd s))) pid = Some (vr_payment r) \<and>
         map_get (orders (snd (verifyPayment hmac tc tv pd s))) oid = Some (vr_order r) \<and>
         payment_amount (vr_payment r) = order_amount ord \<and>
         payment_currency (vr_payment r) = order_currency ord \<and>
         order_amount (vr_order r) = order_amount ord \<and>
         order_currency (vr_order r) = order_currency ord"
    using c(1,2,7) by (simp add: v r map_get_map_set paymentRecord_def)
next
  let ?oid = "''order_'' @ dec now_id @ ''_'' @ rnd"
  let ?ord = "\<lparr>order_id = ?oid, order_entity = ''order'',
             order_amount = Number 29900, order_currency = ''INR'', order_status = Created,
             order_attempts = 0, order_created_at = now_created div 1000,
             order_notes =
               \<lparr>notes_userId = userId, notes_planType = ''standard'',
                notes_userName = or_else (ud_name ud) ''User'',
                notes_userMobile = or_else (ud_mobile ud) []\<rparr>,
             order_userId = userId, order_planType = ''standard'', order_userDetails = ud,
             order_plan =
               Catalog_plan
                 \<lparr>plan_questions = 10, plan_price = 299, plan_name = ''Standard Plan''\<rparr>,
             order_paymentId = None, order_error = None, order_failedAt = None\<rparr>"
  let ?s1 = "snd (createOrder now_id rnd now_created userId ''standard'' (Some ud) s)"
  note co = createOrder_standard [of now_id rnd now_created userId ud s]
  have stored: "map_get (orders ?s1) ?oid = Some ?ord"
    by (simp add: co map_get_map_set del: dec.simps)
  have key: "keySecret (razorpayConfig ?s1) = keySecret (razorpayConfig s)"
    by (simp add: co del: dec.simps)
  have resp: "od_id (cr_order (projr (fst (createOrder now_id rnd now_created userId ''standard'' (Some ud) s)))) = ?oid"
    by (simp add: co del: dec.simps)
  have paid: "\<exists>r' s'.
             verifyPayment hmac tc tv
               \<lparr>razorpay_order_id = Some ?oid, razorpay_payment_id = Some pid',
                razorpay_signature = Some (hmac k (?oid @ ''|'' @ pid'))\<rparr> ?s1
               = (Inr r', s') \<and>
             map_get (payments s') pid' = Some (vr_payment r') \<and>
             payment_amount (vr_payment r') = Number 29900 \<and>
             order_status (vr_order r') = Paid \<and> order_amount (vr_order r') = Number 29900"
    if "keySecret (razorpayConfig s) = Some k \<and> pid' \<noteq> [] \<and> hmac k (?oid @ ''|'' @ pid') \<noteq> []"
  proof -
    have "verifyPayment hmac tc tv
               \<lparr>razorpay_order_id = Some ?oid, razorpay_payment_id = Some pid',
                razorpay_signature = Some (hmac k (?oid @ ''|'' @ pid'))\<rparr> ?s1 = 
        (Inr \<lparr>vr_success = True, vr_payment = paymentRecord pid' ?oid ?ord tc tv,
          vr_order = ?ord\<lparr>order_status := Paid, order_paymentId := Some pid'\<rparr>\<rparr>,
     ?s1\<lparr>payments := map_set pid' (paymentRecord pid' ?oid ?ord tc tv) (payments ?s1),
        orders := map_set ?oid (?ord\<lparr>order_status := Paid, order_paymentId := Some pid'\<rparr>) (orders ?s1)\<rparr>)"
      using that by (intro verifyPayment_valid [where hmac = hmac and k = k, OF _ _ _ _ _ _ stored]) (simp_all add: key)
    then show ?thesis
      by (simp add: map_get_map_set paymentRecord_def del: dec.simps)
  qed
  show "\<exists>resp ord.
         fst (createOrder now_id rnd now_created userId ''standard'' (Some ud) s) = Inr resp \<and>
         od_amount (cr_order resp) = Number 29900 \<and>
         map_get (orders ?s1) (od_id (cr_order resp)) = Some ord \<and>
         order_amount ord = Number 29900 \<and> order_status ord = Created \<and>
         (keySecret (razorpayConfig s) = Some k \<and> pid' \<noteq> [] \<and>
          hmac k (od_id (cr_order resp) @ ''|'' @ pid') \<noteq> [] \<longrightarrow>
          (\<exists>r' s'.
             verifyPayment hmac tc tv
               \<lparr>razorpay_order_id = Some (od_id (cr_order resp)),
                razorpay_payment_id = Some pid',
                razorpay_signature = Some (hmac k (od_id (cr_order resp) @ ''|'' @ pid'))\<rparr>
               ?s1 = (Inr r', s') \<and>
             map_get (payments s') pid' = Some (vr_payment r') \<and>
             payment_amount (vr_payment r') = Number 29900 \<and>
             order_status (vr_order r') = Paid \<and> order_amount (vr_order r') = Number 29900))"
    apply (rule exI [where x = "projr (fst (createOrder now_id rnd now_created userId ''standard'' (Some ud) s))"])
    apply (rule exI [where x = ?ord])
    apply (simp only: resp stored)
    apply (intro conjI impI)
    subgoal by (simp add: co del: dec.simps)
    subgoal by (simp add: co del: dec.simps)
    subgoal by simp
    subgoal by simp
    subgoal by simp
    subgoal using paid by blast
    done
qed


lemma tampered_confirmation_verified:
  "verifyPayment example_hmac 5000 5001 tampered_confirmation service_created =
    (Inr \<lparr>vr_success = True, vr_payment = example_payment,
          vr_order = example_order\<lparr>order_status := Paid, order_paymentId := Some ''pay_1''\<rparr>\<rparr>,
     service_paid)"
  by (simp add: service_paid_eq service_created_eq verifyPayment_def service_new_def
      new_PaymentService_def catch_rethrow_def createHmac_def example_confirmation_def
      tampered_confirmation_def payment_data.extend_def
      example_hmac_def map_get_def example_order_def example_payment_def Let_def
      paymentRecord_def)

theorem payment_amount_is_order_amount_witness:
  "fst (verifyPayment example_hmac 5000 5001 tampered_confirmation service_created) =
      Inr \<lparr>vr_success = True, vr_payment = example_payment,
           vr_order = example_order\<lparr>order_status := Paid, order_paymentId := Some ''pay_1''\<rparr>\<rparr>
   \<and> amount tampered_confirmation = 1
   \<and> payment_amount example_payment = Number 29900
   \<and> (\<exists>ord. map_get (orders service_created) ''order_1000_abc'' = Some ord \<and>
         payment_amount example_payment = order_amount ord \<and>
         payment_currency example_payment = order_currency ord)
   \<and> (\<exists>resp ord.
         fst (createOrder 1000 ''abc'' 1999 ''u1'' ''standard'' (Some example_user) service_new)
           = Inr resp \<and>
         od_amount (cr_order resp) = Number 29900 \<and>
         map_get (orders service_created) (od_id (cr_order resp)) = Some ord \<and>
         order_amount ord = Number 29900 \<and> order_status ord = Created \<and>
         (\<exists>r' s'.
            verifyPayment example_hmac 5000 5001
              \<lparr>razorpay_order_id = Some (od_id (cr_order resp)),
               razorpay_payment_id = Some ''pay_1'',
               razorpay_signature =
                 Some (example_hmac ''secret'' (od_id (cr_order resp) @ ''|'' @ ''pay_1''))\<rparr>
              service_created = (Inr r', s') \<and>
            map_get (payments s') ''pay_1'' = Some (vr_payment r') \<and>
            payment_amount (vr_payment r') = Number 29900 \<and>
            order_status (vr_order r') = Paid \<and> order_amount (vr_order r') = Number 29900))"
proof -
  let ?r = "\<lparr>vr_success = True, vr_payment = example_payment,
             vr_order = example_order\<lparr>order_status := Paid, order_paymentId := Some ''pay_1''\<rparr>\<rparr>"
  note th = payment_amount_is_order_amount [where hmac = example_hmac and tc = 5000 and tv = 5001
      and pd = tampered_confirmation and r = ?r
      and now_id = 1000 and rnd = "''abc''" and now_created = 1999 and userId = "''u1''"
      and ud = example_user and k = "''secret''" and pid' = "''pay_1''"]
  have ok: "fst (verifyPayment example_hmac 5000 5001 tampered_confirmation service_created) = Inr ?r"
    by (simp add: tampered_confirmation_verified)
  have ids: "razorpay_order_id tampered_confirmation = Some ''order_1000_abc''"
    by (simp add: tampered_confirmation_def example_confirmation_def payment_data.extend_def)
  have claimed: "amount tampered_confirmation = 1"
    by (simp add: tampered_confirmation_def payment_data.extend_def)
  have amount: "payment_amount example_payment = Number 29900"
    by (simp add: example_payment_def)
  have key: "keySecret (razorpayConfig service_created) = Some ''secret''"
    by (simp add: service_created_eq service_new_def new_PaymentService_def)
  have key_new: "keySecret (razorpayConfig service_new) = Some ''secret''"
    by (simp add: service_new_def new_PaymentService_def)
  have digest: "example_hmac ''secret'' (x @ ''|'' @ ''pay_1'') \<noteq> []" for x
    by (simp add: example_hmac_def)
  from th [where s = service_created] ok ids
  have first: "\<exists>ord. map_get (orders service_created) ''order_1000_abc'' = Some ord \<and>
         payment_amount example_payment = order_amount ord \<and>
         payment_currency example_payment = order_currency ord"
    by auto
  from th [where s = service_new]
  have second: "\<exists>resp ord.
         fst (createOrder 1000 ''abc'' 1999 ''u1'' ''standard'' (Some example_user) service_new)
           = Inr resp \<and>
         od_amount (cr_order resp) = Number 29900 \<and>
         map_get (orders service_created) (od_id (cr_order resp)) = Some ord \<and>
         order_amount ord = Number 29900 \<and> order_status ord = Created \<and>
         (\<exists>r' s'.
            verifyPayment example_hmac 5000 5001
              \<lparr>razorpay_order_id = Some (od_id (cr_order resp)),
               razorpay_payment_id = Some ''pay_1'',
               razorpay_signature =
                 Some (example_hmac ''secret'' (od_id (cr_order resp) @ ''|'' @ ''pay_1''))\<rparr>
              service_created = (Inr r', s') \<and>
            map_get (payments s') ''pay_1'' = Some (vr_payment r') \<and>
            payment_amount (vr_payment r') = Number 29900 \<and>
            order_status (vr_order r') = Paid \<and> order_amount (vr_order r') = Number 29900)"
    unfolding service_created_def [symmetric]
    using key_new digest by blast
  from ok claimed amount first second show ?thesis
    by blast
qed



subsection \<open>What each operation does to the service\<close>

lemma verifyPayment_Inl_state:
  "fst (verifyPayment hmac tc tv pd s) = Inl e \<Longrightarrow> snd (verifyPayment hmac tc tv pd s) = s"
  by (auto simp: verifyPayment_def catch_rethrow_def createHmac_def Let_def
      split: option.splits if_splits sum.splits)

lemma handlePaymentFailure_stored:
  "map_get (orders s) oid = Some ord \<Longrightarrow>
    snd (handlePaymentFailure now oid ed s) =
      s\<lparr>orders :=
          map_set oid (ord\<lparr>order_status := Failed, order_error := ed, order_failedAt := Some now\<rparr>)
            (orders s)\<rparr>"
  by (simp add: handlePaymentFailure_def Let_def split: option.splits)

lemma handlePaymentFailure_absent:
  "map_get (orders s) oid = None \<Longrightarrow> snd (handlePaymentFailure now oid ed s) = s"
  by (simp add: handlePaymentFailure_def Let_def split: option.splits)

lemma processWebhook_state: "snd (processWebhook ev s) = s"
  by (simp add: processWebhook_def)

text \<open>
  The amount that \<^verbatim>\<open>createOrder\<close> computes: a whole multiple of 100 for a plan of the
  catalogue, and \<^verbatim>\<open>NaN\<close> for what the plans inherit.
\<close>

lemma amount_of_plan_object:
  "times_100 (to_number (po_price po)) = NaN \<or>
   (\<exists>n::int. times_100 (to_number (po_price po)) = Number (of_int (100 * n)))"
proof (cases po)
  case (Catalog_plan p)
  have "times_100 (to_number (po_price po)) = Number (of_int (100 * plan_price p))"
    by (simp add: Catalog_plan po_price_def to_number_def)
  then show ?thesis
    by blast
qed (simp_all add: po_price_def to_number_def)

lemma createOrder_cases:
  "snd (createOrder now_id rnd now_created userId planType userDetails s) = s \<or>
   (\<exists>k v. snd (createOrder now_id rnd now_created userId planType userDetails s) =
        s\<lparr>orders := map_set k v (orders s)\<rparr> \<and>
      order_paymentId v = None \<and> order_attempts v = 0 \<and>
      (order_amount v = NaN \<or> (\<exists>n::int. order_amount v = Number (of_int (100 * n)))))"
proof (cases "plans_get planType")
  case None
  then show ?thesis
    by (simp add: createOrder_def catch_rethrow_def)
next
  case plan: (Some po)
  show ?thesis
  proof (cases userDetails)
    case None
    with plan show ?thesis
      by (simp add: createOrder_def catch_rethrow_def)
  next
    case (Some ud)
    show ?thesis
      using amount_of_plan_object [of po]
      apply (simp add: createOrder_def catch_rethrow_def Let_def plan Some del: dec.simps)
      apply (rule disjI2, rule exI, rule exI, rule conjI, rule refl)
      apply simp
      done
  qed
qed

lemma perform_cases:
  obtains (same) "perform hmac op s = s"
  | (created) k v where "perform hmac op s = s\<lparr>orders := map_set k v (orders s)\<rparr>"
      "order_paymentId v = None" "order_attempts v = 0"
      "order_amount v = NaN \<or> (\<exists>n::int. order_amount v = Number (of_int (100 * n)))"
  | (paid) oid pid ord tc tv where "map_get (orders s) oid = Some ord" "pid \<noteq> []"
      "perform hmac op s =
        s\<lparr>payments := map_set pid (paymentRecord pid oid ord tc tv) (payments s),
          orders := map_set oid (ord\<lparr>order_status := Paid, order_paymentId := Some pid\<rparr>)
            (orders s)\<rparr>"
  | (failed) oid ord ed now where "map_get (orders s) oid = Some ord"
      "perform hmac op s =
        s\<lparr>orders :=
            map_set oid
              (ord\<lparr>order_status := Failed, order_error := ed, order_failedAt := Some now\<rparr>)
              (orders s)\<rparr>"
proof (cases op)
  case (CreateOrder now_id rnd now_created userId planType userDetails)
  with createOrder_cases [of now_id rnd now_created userId planType userDetails s]
  show ?thesis
    using same created by auto
next
  case (VerifyPayment tc tv pd)
  show ?thesis
  proof (cases "fst (verifyPayment hmac tc tv pd s)")
    case (Inl e)
    with VerifyPayment have "perform hmac op s = s"
      by (simp add: verifyPayment_Inl_state)
    then show ?thesis
      by (rule same)
  next
    case (Inr r)
    from verifyPayment_InrD [OF Inr] obtain oid pid sig ord k where c:
      "razorpay_order_id pd = Some oid" "razorpay_payment_id pd = Some pid"
      "razorpay_signature pd = Some sig" "oid \<noteq> []" "pid \<noteq> []" "sig \<noteq> []"
      "map_get (orders s) oid = Some ord" "keySecret (razorpayConfig s) = Some k"
      "sig = hmac k (oid @ ''|'' @ pid)"
      by blast
    have "perform hmac op s =
        s\<lparr>payments := map_set pid (paymentRecord pid oid ord tc tv) (payments s),
          orders := map_set oid (ord\<lparr>order_status := Paid, order_paymentId := Some pid\<rparr>)
            (orders s)\<rparr>"
      by (simp add: VerifyPayment verifyPayment_valid [where hmac = hmac, OF c])
    with c(7,5) show ?thesis
      by (rule paid)
  qed
next
  case (HandlePaymentFailure now oid ed)
  show ?thesis
  proof (cases "map_get (orders s) oid")
    case None
    with HandlePaymentFailure have "perform hmac op s = s"
      by (simp add: handlePaymentFailure_absent)
    then show ?thesis
      by (rule same)
  next
    case (Some ord)
    then have "perform hmac op s =
        s\<lparr>orders :=
            map_set oid
              (ord\<lparr>order_status := Failed, order_error := ed, order_failedAt := Some now\<rparr>)
              (orders s)\<rparr>"
      by (simp add: HandlePaymentFailure handlePaymentFailure_stored)
    with Some show ?thesis
      by (rule failed)
  qed
next
  case (ProcessWebhook ev)
  then have "perform hmac op s = s"
    by (simp add: processWebhook_state)
  then show ?thesis
    by (rule same)
qed

lemma reachable_attempts:
  "reachable hmac s \<Longrightarrow> map_get (orders s) oid = Some ord \<Longrightarrow> order_attempts ord = 0"
proof (induction arbitrary: oid ord rule: reachable.induct)
  case (reachable_new key_id key_secret webhook_secret)
  then show ?case
    by (simp add: new_PaymentService_def map_get_def)
next
  case (reachable_perform s op)
  show ?case
  proof (cases hmac op s rule: perform_cases)
    case same
    with reachable_perform show ?thesis
      by simp
  next
    case (created k v)
    with reachable_perform show ?thesis
      by (auto simp: map_get_map_set split: if_splits)
  next
    case (paid oid' pid ord' tc tv)
    with reachable_perform show ?thesis
      by (auto simp: map_get_map_set split: if_splits)
  next
    case (failed oid' ord' ed now)
    with reachable_perform show ?thesis
      by (auto simp: map_get_map_set split: if_splits)
  qed
qed

lemma perform_keeps_orders:
  assumes "map_get (orders s) oid = Some ord"
  shows "\<exists>ord'. map_get (orders (perform hmac op s)) oid = Some ord'"
  using assms by (cases hmac op s rule: perform_cases) (auto simp: map_get_map_set)

text \<open>
  C7, as the code has it. \<^verbatim>\<open>handlePaymentFailure\<close> on an order that is stored, in whatever
  status, leaves it stored with status \<^verbatim>\<open>failed\<close>, the error data it was given and the
  time of the call, and with the attempts it had: the counter is not incremented. No
  operation writes the counter after \<^verbatim>\<open>createOrder\<close> has set it to 0, so in every service
  reached by a run every stored order has 0 attempts, every operation keeps the order
  stored, and its attempts do not decrease.
\<close>

theorem handlePaymentFailure_keeps_attempts:
  "(map_get (orders s) oid = Some ord \<longrightarrow>
      (\<exists>ord'. map_get (orders (snd (handlePaymentFailure now oid ed s))) oid = Some ord' \<and>
         order_status ord' = Failed \<and> order_error ord' = ed \<and>
         order_failedAt ord' = Some now \<and> order_attempts ord' = order_attempts ord))
   \<and> (reachable hmac s \<and> map_get (orders s) oid = Some ord \<longrightarrow>
        order_attempts ord = 0 \<and>
        (\<exists>ord'. map_get (orders (perform hmac op s)) oid = Some ord' \<and>
           order_attempts ord \<le> order_attempts ord'))"
proof (intro conjI impI)
  assume "map_get (orders s) oid = Some ord"
  then show "\<exists>ord'. map_get (orders (snd (handlePaymentFailure now oid ed s))) oid = Some ord' \<and>
         order_status ord' = Failed \<and> order_error ord' = ed \<and>
         order_failedAt ord' = Some now \<and> order_attempts ord' = order_attempts ord"
    by (simp add: handlePaymentFailure_stored map_get_map_set)
next
  assume a: "reachable hmac s \<and> map_get (orders s) oid = Some ord"
  then show "order_attempts ord = 0"
    by (blast intro: reachable_attempts)
  from a perform_keeps_orders obtain ord' where
    "map_get (orders (perform hmac op s)) oid = Some ord'"
    by blast
  then show "\<exists>ord'. map_get (orders (perform hmac op s)) oid = Some ord' \<and>
           order_attempts ord \<le> order_attempts ord'"
    using a reachable_attempts [of hmac s oid ord] by simp
qed

text \<open>
  C2, as the code has it. \<^verbatim>\<open>handlePaymentFailure\<close> does not look at the status: on every
  order that is stored, a paid one too, it sets the status to \<^verbatim>\<open>failed\<close>, records the error
  data and the time, and leaves every other field of the order (its \<^verbatim>\<open>paymentId\<close> too),
  every other order, the payments and the configuration as they were; it returns the
  failure response.
\<close>

theorem handlePaymentFailure_marks_any_order:
  assumes "map_get (orders s) oid = Some ord"
  shows "map_get (orders (snd (handlePaymentFailure now oid ed s))) oid =
      Some (ord\<lparr>order_status := Failed, order_error := ed, order_failedAt := Some now\<rparr>)
    \<and> (\<forall>oid'. oid' = oid \<or>
          map_get (orders (snd (handlePaymentFailure now oid ed s))) oid' = map_get (orders s) oid')
    \<and> payments (snd (handlePaymentFailure now oid ed s)) = payments s
    \<and> razorpayConfig (snd (handlePaymentFailure now oid ed s)) = razorpayConfig s
    \<and> fst (handlePaymentFailure now oid (Some e) s) =
        Inr \<lparr>fr_success = False, fr_message = ''Payment failed. Please try again.'', fr_error = e\<rparr>"
  using assms
  by (simp add: handlePaymentFailure_stored map_get_map_set)
    (simp add: handlePaymentFailure_def Let_def)

subsection \<open>processWebhook\<close>

text \<open>
  C4. \<^verbatim>\<open>processWebhook\<close> never changes the service. It returns success exactly on the event
  types it does not know; on \<^verbatim>\<open>payment.captured\<close>, \<^verbatim>\<open>payment.failed\<close> and \<^verbatim>\<open>order.paid\<close> it
  throws a \<^verbatim>\<open>TypeError\<close>, the handler it calls being no method of the class, and no
  transition is invoked.
\<close>

theorem processWebhook_throws_on_known_events:
  "snd (processWebhook ev s) = s \<and>
   (case fst (processWebhook ev s) of
      Inr r \<Rightarrow> r = \<lparr>wr_success = True\<rparr> \<and>
        event ev \<notin> {''payment.captured'', ''payment.failed'', ''order.paid''}
    | Inl e \<Rightarrow> (\<exists>t. e = TypeError t) \<and>
        event ev \<in> {''payment.captured'', ''payment.failed'', ''order.paid''})"
  by (simp add: processWebhook_def call_undefined_method_def split: option.splits)


text \<open>The paid order of the scenario, reported as failed: its status is \<^verbatim>\<open>failed\<close> afterwards.\<close>

theorem paid_order_marked_failed:
  "map_option order_status (map_get (orders service_paid) ''order_1000_abc'') = Some Paid \<and>
   map_option order_status
     (map_get (orders (snd (handlePaymentFailure 6000 ''order_1000_abc'' (Some example_error)
        service_paid))) ''order_1000_abc'') = Some Failed"
  by (simp add: service_paid_eq handlePaymentFailure_def map_get_def Let_def)

theorem handlePaymentFailure_marks_any_order_witness:
  "map_get (orders service_paid) ''order_1000_abc'' =
      Some (example_order\<lparr>order_status := Paid, order_paymentId := Some ''pay_1''\<rparr>)
   \<and> map_get (orders (snd (handlePaymentFailure 6000 ''order_1000_abc'' (Some example_error)
        service_paid))) ''order_1000_abc'' =
      Some (example_order\<lparr>order_status := Failed, order_paymentId := Some ''pay_1'',
              order_error := Some example_error, order_failedAt := Some 6000\<rparr>)
   \<and> payments (snd (handlePaymentFailure 6000 ''order_1000_abc'' (Some example_error)
        service_paid)) = [(''pay_1'', example_payment)]
   \<and> fst (handlePaymentFailure 6000 ''order_1000_abc'' (Some example_error) service_paid) =
      Inr \<lparr>fr_success = False, fr_message = ''Payment failed. Please try again.'',
           fr_error = example_error\<rparr>"
proof -
  have stored: "map_get (orders service_paid) ''order_1000_abc'' =
      Some (example_order\<lparr>order_status := Paid, order_paymentId := Some ''pay_1''\<rparr>)"
    by (simp add: service_paid_eq map_get_def)
  have pays: "payments service_paid = [(''pay_1'', example_payment)]"
    by (simp add: service_paid_eq)
  from handlePaymentFailure_marks_any_order [OF stored, of 6000 "Some example_error" example_error]
    stored pays
  show ?thesis
    by simp
qed

text \<open>
  The created order of the scenario, reported as failed: its attempts are 0 before and 0
  afterwards.
\<close>

theorem failed_order_attempts_still_zero:
  "map_option order_status (map_get (orders service_created) ''order_1000_abc'') = Some Created \<and>
   map_option order_attempts (map_get (orders service_created) ''order_1000_abc'') = Some 0 \<and>
   map_option order_status
     (map_get (orders (snd (handlePaymentFailure 4000 ''order_1000_abc'' (Some example_error)
        service_created))) ''order_1000_abc'') = Some Failed \<and>
   map_option order_attempts
     (map_get (orders (snd (handlePaymentFailure 4000 ''order_1000_abc'' (Some example_error)
        service_created))) ''order_1000_abc'') = Some 0"
  by (simp add: service_created_eq handlePaymentFailure_def map_get_def Let_def example_order_def)

lemma reachable_service_created: "reachable example_hmac service_created"
proof -
  have "reachable example_hmac service_new"
    unfolding service_new_def by (rule reachable_new)
  then have "reachable example_hmac
      (perform example_hmac
        (CreateOrder 1000 ''abc'' 1999 ''u1'' ''standard'' (Some example_user)) service_new)"
    by (rule reachable_perform)
  then show ?thesis
    by (simp add: service_created_def)
qed

theorem handlePaymentFailure_keeps_attempts_witness:
  "map_get (orders service_created) ''order_1000_abc'' = Some example_order
   \<and> reachable example_hmac service_created
   \<and> order_attempts example_order = 0
   \<and> (\<exists>ord'. map_get (orders (snd (handlePaymentFailure 4000 ''order_1000_abc''
          (Some example_error) service_created))) ''order_1000_abc'' = Some ord' \<and>
         order_status ord' = Failed \<and> order_error ord' = Some example_error \<and>
         order_failedAt ord' = Some 4000 \<and> order_attempts ord' = order_attempts example_order)
   \<and> (\<exists>ord'. map_get (orders (perform example_hmac
          (HandlePaymentFailure 4000 ''order_1000_abc'' (Some example_error)) service_created))
          ''order_1000_abc'' = Some ord' \<and>
         order_attempts example_order \<le> order_attempts ord')"
proof -
  have stored: "map_get (orders service_created) ''order_1000_abc'' = Some example_order"
    by (simp add: service_created_eq map_get_def)
  from handlePaymentFailure_keeps_attempts [of service_created "''order_1000_abc''" example_order
      4000 "Some example_error" example_hmac
      "HandlePaymentFailure 4000 ''order_1000_abc'' (Some example_error)"]
    stored reachable_service_created
  show ?thesis
    by blast
qed

theorem processWebhook_throws_on_known_events_witness:
  "processWebhook payment_captured_event service_created =
      (Inl (TypeError (Not_a_function ''handlePaymentCaptured'')), service_created)
   \<and> event payment_captured_event = ''payment.captured''
   \<and> map_option order_status (map_get (orders service_created) ''order_1000_abc'') = Some Created
   \<and> payments service_created = []"
proof -
  have "fst (processWebhook payment_captured_event service_created) =
      Inl (TypeError (Not_a_function ''handlePaymentCaptured''))"
    by (simp add: processWebhook_def call_undefined_method_def payment_captured_event_def
        example_payload_def)
  moreover have "snd (processWebhook payment_captured_event service_created) = service_created"
    using processWebhook_throws_on_known_events [of payment_captured_event service_created]
    by blast
  moreover have "event payment_captured_event = ''payment.captured''"
    by (simp add: payment_captured_event_def)
  moreover have
    "map_option order_status (map_get (orders service_created) ''order_1000_abc'') = Some Created"
    by (simp add: service_created_eq map_get_def example_order_def)
  moreover have "payments service_created = []"
    by (simp add: service_created_eq service_new_def new_PaymentService_def)
  ultimately show ?thesis
    by (simp add: prod_eq_iff)
qed

text \<open>
  C5. The failed order of the scenario and the \<^verbatim>\<open>order.paid\<close> event of the gateway for it:
  \<^verbatim>\<open>processWebhook\<close> throws a \<^verbatim>\<open>TypeError\<close>, \<^verbatim>\<open>handleOrderPaid\<close> being no method of the class;
  the order is still \<^verbatim>\<open>failed\<close> and no payment is stored.
\<close>

theorem order_paid_webhook_leaves_order_failed:
  "processWebhook order_paid_event service_failed =
      (Inl (TypeError (Not_a_function ''handleOrderPaid'')), service_failed)
   \<and> map_option order_status (map_get (orders service_failed) ''order_1000_abc'') = Some Failed
   \<and> payments service_failed = []"
  by (simp add: processWebhook_def call_undefined_method_def order_paid_event_def
      example_payload_def service_failed_eq map_get_def service_new_def new_PaymentService_def)

text \<open>
  The confirmation of the client does what the webhook does not: on a failed order, a
  valid confirmation with a payment id that is new turns the order to \<^verbatim>\<open>paid\<close> and appends
  one payment for it.
\<close>

lemma verifyPayment_recovers_failed_order:
  assumes "razorpay_order_id pd = Some oid" "razorpay_payment_id pd = Some pid"
    "razorpay_signature pd = Some sig" "oid \<noteq> []" "pid \<noteq> []" "sig \<noteq> []"
    "map_get (orders s) oid = Some ord" "keySecret (razorpayConfig s) = Some k"
    "sig = hmac k (oid @ ''|'' @ pid)"
    and "order_status ord = Failed" and "map_get (payments s) pid = None"
  shows "\<exists>r s'. verifyPayment hmac tc tv pd s = (Inr r, s') \<and>
      map_get (orders s') oid = Some (vr_order r) \<and> order_status (vr_order r) = Paid \<and>
      order_paymentId (vr_order r) = Some pid \<and>
      payments s' = payments s @ [(pid, vr_payment r)] \<and> payment_orderId (vr_payment r) = oid"
  using assms(10,11)
  by (simp add: verifyPayment_valid [where hmac = hmac, OF assms(1-9)] map_get_map_set
      map_set_new paymentRecord_def)

subsection \<open>getUserPayments\<close>

lemma mset_insert_by: "mset (insert_by cmp x ys) = add_mset x (mset ys)"
  by (induction ys) auto

lemma mset_array_sort: "mset (array_sort cmp xs) = mset xs"
  by (induction xs) (auto simp: array_sort_def mset_insert_by)

lemma insert_by_insort_key:
  assumes "\<And>a b. (cmp a b \<le> 0) = (f a \<le> f b)"
  shows "insert_by cmp x ys = insort_key f x ys"
  by (induction ys) (auto simp: assms)

lemma array_sort_sort_key:
  assumes "\<And>a b. (cmp a b \<le> 0) = (f a \<le> f b)"
  shows "array_sort cmp xs = sort_key f xs"
proof -
  have "insert_by cmp = insort_key f"
    by (intro ext) (rule insert_by_insort_key [OF assms])
  then show ?thesis
    by (simp add: array_sort_def sort_key_def)
qed

lemma by_createdAt_desc_key:
  "(by_createdAt_desc a b \<le> 0) = (- int (he_createdAt a) \<le> - int (he_createdAt b))"
  by (simp add: by_createdAt_desc_def)

lemma getUserPayments_sort_key:
  "getUserPayments s uid =
    sort_key (\<lambda>e. - int (he_createdAt e))
      (map history_entry_of (filter (\<lambda>p. payment_userId p = uid) (map_values (payments s))))"
  unfolding getUserPayments_def
  by (rule array_sort_sort_key) (rule by_createdAt_desc_key)

lemma he_createdAt_history_entry_of [simp]:
  "he_createdAt (history_entry_of p) = payment_createdAt p"
  by (simp add: history_entry_of_def)

lemma filter_three:
  assumes "mset xs = {#a, b, c#}" and "P a" and "\<not> P b" and "\<not> P c"
  shows "filter P xs = [a]"
proof -
  have "mset (filter P xs) = filter_mset P (mset xs)"
    by simp
  also have "\<dots> = {#a#}"
    using assms by simp
  finally have "mset (filter P xs) = {#a#}" .
  then show ?thesis
    by (simp only: mset_single_iff)
qed

lemma getUserPayments_sorted:
  "mset (getUserPayments s uid) =
      mset (map history_entry_of
        (filter (\<lambda>p. payment_userId p = uid) (map_values (payments s))))
   \<and> sorted_wrt (\<lambda>a b. he_createdAt b \<le> he_createdAt a) (getUserPayments s uid)
   \<and> filter (\<lambda>e. he_createdAt e = t) (getUserPayments s uid) =
       map history_entry_of
         (filter (\<lambda>p. payment_createdAt p = t)
           (filter (\<lambda>p. payment_userId p = uid) (map_values (payments s))))
   \<and> (mset (filter (\<lambda>p. payment_userId p = uid) (map_values (payments s))) = {#p1, p2, p3#} \<and>
       payment_createdAt p1 < payment_createdAt p2 \<and>
       payment_createdAt p2 < payment_createdAt p3 \<longrightarrow>
       getUserPayments s uid = map history_entry_of [p3, p2, p1])"
proof (intro conjI impI)
  let ?owned = "filter (\<lambda>p. payment_userId p = uid) (map_values (payments s))"
  let ?key = "\<lambda>e. - int (he_createdAt e)"
  show "mset (getUserPayments s uid) = mset (map history_entry_of ?owned)"
    by (simp add: getUserPayments_def mset_array_sort)
  have "sorted (map ?key (getUserPayments s uid))"
    by (simp add: getUserPayments_sort_key)
  then show "sorted_wrt (\<lambda>a b. he_createdAt b \<le> he_createdAt a) (getUserPayments s uid)"
    by (simp add: sorted_map)
  have "filter (\<lambda>e. ?key e = - int t) (getUserPayments s uid) =
      filter (\<lambda>e. ?key e = - int t) (map history_entry_of ?owned)"
    unfolding getUserPayments_sort_key by (rule sort_key_stable)
  then show "filter (\<lambda>e. he_createdAt e = t) (getUserPayments s uid) =
      map history_entry_of (filter (\<lambda>p. payment_createdAt p = t) ?owned)"
    by (simp add: filter_map comp_def)
next
  let ?owned = "filter (\<lambda>p. payment_userId p = uid) (map_values (payments s))"
  let ?key = "\<lambda>e. - int (he_createdAt e)"
  let ?h = history_entry_of
  assume a: "mset ?owned = {#p1, p2, p3#} \<and>
       payment_createdAt p1 < payment_createdAt p2 \<and>
       payment_createdAt p2 < payment_createdAt p3"
  then have m: "mset ?owned = {#p1, p2, p3#}"
    and lt: "payment_createdAt p1 < payment_createdAt p2"
      "payment_createdAt p2 < payment_createdAt p3"
    by blast+
  define hs where "hs = map ?h ?owned"
  have mh: "mset hs = {#?h p1, ?h p2, ?h p3#}"
    unfolding hs_def mset_map m by simp
  have "sort_key ?key hs = map ?h [p3, p2, p1]"
  proof (rule properties_for_sort_key)
    show "mset (map ?h [p3, p2, p1]) = mset hs"
      by (simp add: mh)
    show "sorted (map ?key (map ?h [p3, p2, p1]))"
      using lt by simp
    fix k
    assume "k \<in> set (map ?h [p3, p2, p1])"
    then consider "k = ?h p1" | "k = ?h p2" | "k = ?h p3"
      by auto
    then show "filter (\<lambda>x. ?key k = ?key x) (map ?h [p3, p2, p1])
        = filter (\<lambda>x. ?key k = ?key x) hs"
    proof cases
      case 1
      have "filter (\<lambda>x. ?key k = ?key x) hs = [?h p1]"
        using lt by (intro filter_three [of _ _ "?h p2" "?h p3"]) (simp_all add: mh 1)
      with lt show ?thesis
        by (simp add: 1)
    next
      case 2
      have "filter (\<lambda>x. ?key k = ?key x) hs = [?h p2]"
        using lt by (intro filter_three [of _ _ "?h p1" "?h p3"]) (simp_all add: mh 2)
      with lt show ?thesis
        by (simp add: 2)
    next
      case 3
      have "filter (\<lambda>x. ?key k = ?key x) hs = [?h p3]"
        using lt by (intro filter_three [of _ _ "?h p1" "?h p2"]) (simp_all add: mh 3)
      with lt show ?thesis
        by (simp add: 3)
    qed
  qed
  then show "getUserPayments s uid = map history_entry_of [p3, p2, p1]"
    by (simp add: getUserPayments_sort_key hs_def)
qed

text \<open>
  C9. \<^verbatim>\<open>getUserPayments\<close> returns one entry for each stored payment of the user and no
  other: as multisets, the entries that carry the id, the order id, the amount divided by
  100, the plan type, the name and the questions of the plan, the status and the creation
  time of the payments whose \<^verbatim>\<open>userId\<close> is the user's. They are sorted by creation time
  with the most recent first; the entries created at one time \<open>t\<close> stand in the order in
  which their payments were inserted. So three payments of the user created at times
  \<open>T1 < T2 < T3\<close>, in whatever order they are stored, are returned in the order
  \<open>T3, T2, T1\<close>.
\<close>

theorem getUserPayments_most_recent_first:
  "let owned = filter (\<lambda>p. payment_userId p = uid) (map_values (payments s));
       entry = (\<lambda>p.
         \<lparr>he_id = payment_id p,
          he_orderId = payment_orderId p,
          he_amount = div_100 (payment_amount p),
          he_planType = payment_planType p,
          he_planName = po_name (payment_plan p),
          he_questions = po_questions (payment_plan p),
          he_status = payment_status p,
          he_createdAt = payment_createdAt p\<rparr>)
   in mset (getUserPayments s uid) = mset (map entry owned)
    \<and> sorted_wrt (\<lambda>a b. he_createdAt b \<le> he_createdAt a) (getUserPayments s uid)
    \<and> filter (\<lambda>e. he_createdAt e = t) (getUserPayments s uid) =
        map entry (filter (\<lambda>p. payment_createdAt p = t) owned)
    \<and> (mset owned = {#p1, p2, p3#} \<and>
        payment_createdAt p1 < payment_createdAt p2 \<and>
        payment_createdAt p2 < payment_createdAt p3 \<longrightarrow>
        getUserPayments s uid = map entry [p3, p2, p1])"
proof -
  have entry: "(\<lambda>p.
         \<lparr>he_id = payment_id p,
          he_orderId = payment_orderId p,
          he_amount = div_100 (payment_amount p),
          he_planType = payment_planType p,
          he_planName = po_name (payment_plan p),
          he_questions = po_questions (payment_plan p),
          he_status = payment_status p,
          he_createdAt = payment_createdAt p\<rparr>) = history_entry_of"
    by (rule ext) (simp add: history_entry_of_def)
  show ?thesis
    unfolding Let_def entry by (rule getUserPayments_sorted)
qed

theorem getUserPayments_most_recent_first_witness:
  "getUserPayments service_history ''u1'' =
      [\<lparr>he_id = ''pay_c'', he_orderId = ''order_1000_abc'', he_amount = Number 299,
        he_planType = ''standard'', he_planName = Some ''Standard Plan'',
        he_questions = Some 10, he_status = ''captured'', he_createdAt = 300\<rparr>,
       \<lparr>he_id = ''pay_b'', he_orderId = ''order_1000_abc'', he_amount = Number 299,
        he_planType = ''standard'', he_planName = Some ''Standard Plan'',
        he_questions = Some 10, he_status = ''captured'', he_createdAt = 200\<rparr>,
       \<lparr>he_id = ''pay_a'', he_orderId = ''order_1000_abc'', he_amount = Number 299,
        he_planType = ''standard'', he_planName = Some ''Standard Plan'',
        he_questions = Some 10, he_status = ''captured'', he_createdAt = 100\<rparr>]
   \<and> map fst (payments service_history) = [''pay_b'', ''pay_x'', ''pay_c'', ''pay_a'']
   \<and> mset (filter (\<lambda>p. payment_userId p = ''u1'') (map_values (payments service_history))) =
       {#history_payment ''pay_a'' ''u1'' 100, history_payment ''pay_b'' ''u1'' 200,
         history_payment ''pay_c'' ''u1'' 300#}
   \<and> payment_createdAt (history_payment ''pay_a'' ''u1'' 100) = 100
   \<and> payment_createdAt (history_payment ''pay_b'' ''u1'' 200) = 200
   \<and> payment_createdAt (history_payment ''pay_c'' ''u1'' 300) = 300"
proof -
  have owned: "filter (\<lambda>p. payment_userId p = ''u1'') (map_values (payments service_history)) =
      [history_payment ''pay_b'' ''u1'' 200, history_payment ''pay_c'' ''u1'' 300,
       history_payment ''pay_a'' ''u1'' 100]"
    by (simp add: service_history_def map_values_def history_payment_def paymentRecord_def)
  have m: "mset (filter (\<lambda>p. payment_userId p = ''u1'') (map_values (payments service_history))) =
       {#history_payment ''pay_a'' ''u1'' 100, history_payment ''pay_b'' ''u1'' 200,
         history_payment ''pay_c'' ''u1'' 300#}"
    unfolding owned by simp
  have t: "payment_createdAt (history_payment pid uid n) = n" for pid uid n
    by (simp add: history_payment_def paymentRecord_def)
  have keys: "map fst (payments service_history) = [''pay_b'', ''pay_x'', ''pay_c'', ''pay_a'']"
    by (simp add: service_history_def)
  have "getUserPayments service_history ''u1'' =
      map (\<lambda>p.
         \<lparr>he_id = payment_id p,
          he_orderId = payment_orderId p,
          he_amount = div_100 (payment_amount p),
          he_planType = payment_planType p,
          he_planName = po_name (payment_plan p),
          he_questions = po_questions (payment_plan p),
          he_status = payment_status p,
          he_createdAt = payment_createdAt p\<rparr>)
        [history_payment ''pay_c'' ''u1'' 300, history_payment ''pay_b'' ''u1'' 200,
         history_payment ''pay_a'' ''u1'' 100]"
    using getUserPayments_most_recent_first [of "''u1''" service_history 0
        "history_payment ''pay_a'' ''u1'' 100" "history_payment ''pay_b'' ''u1'' 200"
        "history_payment ''pay_c'' ''u1'' 300"] m
    by (simp add: t Let_def)
  then have "getUserPayments service_history ''u1'' =
      [\<lparr>he_id = ''pay_c'', he_orderId = ''order_1000_abc'', he_amount = Number 299,
        he_planType = ''standard'', he_planName = Some ''Standard Plan'',
        he_questions = Some 10, he_status = ''captured'', he_createdAt = 300\<rparr>,
       \<lparr>he_id = ''pay_b'', he_orderId = ''order_1000_abc'', he_amount = Number 299,
        he_planType = ''standard'', he_planName = Some ''Standard Plan'',
        he_questions = Some 10, he_status = ''captured'', he_createdAt = 200\<rparr>,
       \<lparr>he_id = ''pay_a'', he_orderId = ''order_1000_abc'', he_amount = Number 299,
        he_planType = ''standard'', he_planName = Some ''Standard Plan'',
        he_questions = Some 10, he_status = ''captured'', he_createdAt = 100\<rparr>]"
    by (simp add: history_payment_def paymentRecord_def example_order_def po_name_def
        po_questions_def)
  with m keys show ?thesis
    by (simp add: t)
qed

subsection \<open>Replay\<close>

text \<open>
  C1, as the code has it. \<^verbatim>\<open>verifyPayment\<close> does not look for a payment that is already
  there. After a call that has returned, the same confirmation returns again: the order
  map is as it was and the payment map has the keys it had, so that one payment stands
  under the payment id when the keys were distinct; but the payment is built anew, and
  the one stored and the one returned are the first with \<^verbatim>\<open>createdAt\<close> and \<^verbatim>\<open>verifiedAt\<close>
  read from the clock again. With the clock readings of the first call, the second call
  returns the response of the first and leaves the service as it was.
\<close>

theorem verifyPayment_replay:
  assumes "verifyPayment hmac tc tv pd s = (Inr r, s1)"
  shows "verifyPayment hmac tc' tv' pd s1 =
      (Inr (r\<lparr>vr_payment := (vr_payment r)\<lparr>payment_createdAt := tc',
               payment_verifiedAt := tv'\<rparr>\<rparr>),
       s1\<lparr>payments :=
            map_set (payment_id (vr_payment r))
              ((vr_payment r)\<lparr>payment_createdAt := tc', payment_verifiedAt := tv'\<rparr>)
              (payments s1)\<rparr>)
    \<and> map fst (payments (snd (verifyPayment hmac tc' tv' pd s1))) = map fst (payments s1)
    \<and> orders (snd (verifyPayment hmac tc' tv' pd s1)) = orders s1
    \<and> (distinct (map fst (payments s)) \<longrightarrow>
         length (filter (\<lambda>e. fst e = payment_id (vr_payment r))
           (payments (snd (verifyPayment hmac tc' tv' pd s1)))) = 1)
    \<and> verifyPayment hmac tc tv pd s1 = (Inr r, s1)"
proof -
  from assms have ok: "fst (verifyPayment hmac tc tv pd s) = Inr r"
    by simp
  from verifyPayment_InrD [OF ok] obtain oid pid sig ord k where c:
    "razorpay_order_id pd = Some oid" "razorpay_payment_id pd = Some pid"
    "razorpay_signature pd = Some sig" "oid \<noteq> []" "pid \<noteq> []" "sig \<noteq> []"
    "map_get (orders s) oid = Some ord" "keySecret (razorpayConfig s) = Some k"
    "sig = hmac k (oid @ ''|'' @ pid)"
    by blast
  let ?ord1 = "ord\<lparr>order_status := Paid, order_paymentId := Some pid\<rparr>"
  from assms have r: "r = \<lparr>vr_success = True, vr_payment = paymentRecord pid oid ord tc tv,
      vr_order = ?ord1\<rparr>"
    and s1: "s1 = s\<lparr>payments := map_set pid (paymentRecord pid oid ord tc tv) (payments s),
      orders := map_set oid ?ord1 (orders s)\<rparr>"
    by (simp_all add: verifyPayment_valid [where hmac = hmac, OF c])
  have stored: "map_get (orders s1) oid = Some ?ord1"
    by (simp add: s1 map_get_map_set)
  have key: "keySecret (razorpayConfig s1) = Some k"
    by (simp add: s1 c(8))
  have again: "verifyPayment hmac a b pd s1 =
      (Inr \<lparr>vr_success = True, vr_payment = paymentRecord pid oid ord a b, vr_order = ?ord1\<rparr>,
       s1\<lparr>payments := map_set pid (paymentRecord pid oid ord a b) (payments s1)\<rparr>)" for a b
    by (simp add: verifyPayment_valid [where hmac = hmac, OF c(1-6) stored key c(9)]
        paymentRecord_def)
      (simp add: s1 map_set_twice)
  have rec: "(vr_payment r)\<lparr>payment_createdAt := a, payment_verifiedAt := b\<rparr>
      = paymentRecord pid oid ord a b" for a b
    by (simp add: r paymentRecord_def)
  have pid: "payment_id (vr_payment r) = pid"
    by (simp add: r paymentRecord_def)
  have present: "pid \<in> set (map fst (payments s1))"
    using map_set_entry [of pid "paymentRecord pid oid ord tc tv" "payments s"]
    by (force simp: s1)
  have first: "verifyPayment hmac tc' tv' pd s1 =
      (Inr (r\<lparr>vr_payment := (vr_payment r)\<lparr>payment_createdAt := tc',
               payment_verifiedAt := tv'\<rparr>\<rparr>),
       s1\<lparr>payments :=
            map_set (payment_id (vr_payment r))
              ((vr_payment r)\<lparr>payment_createdAt := tc', payment_verifiedAt := tv'\<rparr>)
              (payments s1)\<rparr>)"
    unfolding rec pid by (simp add: again r)
  have keys: "map fst (payments (snd (verifyPayment hmac tc' tv' pd s1))) = map fst (payments s1)"
    using present by (simp add: again keys_map_set)
  have same_orders: "orders (snd (verifyPayment hmac tc' tv' pd s1)) = orders s1"
    by (simp add: again)
  have one: "length (filter (\<lambda>e. fst e = payment_id (vr_payment r))
           (payments (snd (verifyPayment hmac tc' tv' pd s1)))) = 1"
    if "distinct (map fst (payments s))"
  proof -
    from that have "distinct (map fst (payments s1))"
      by (simp add: s1 distinct_keys_map_set)
    then show ?thesis
      by (simp add: again pid count_key_map_set)
  qed
  have same: "verifyPayment hmac tc tv pd s1 = (Inr r, s1)"
    by (simp add: again r) (simp add: s1 map_set_twice)
  from first keys same_orders one same show ?thesis
    by blast
qed

lemma example_confirmation_verified:
  "verifyPayment example_hmac 5000 5001 example_confirmation service_created =
    (Inr \<lparr>vr_success = True, vr_payment = example_payment,
          vr_order = example_order\<lparr>order_status := Paid, order_paymentId := Some ''pay_1''\<rparr>\<rparr>,
     service_paid)"
  by (simp add: service_paid_eq service_created_eq verifyPayment_def service_new_def
      new_PaymentService_def catch_rethrow_def createHmac_def example_confirmation_def
      example_hmac_def map_get_def example_order_def example_payment_def Let_def
      paymentRecord_def)

lemma example_confirmation_replayed:
  "verifyPayment example_hmac 9000 9001 example_confirmation service_paid =
    (Inr \<lparr>vr_success = True,
          vr_payment = example_payment\<lparr>payment_createdAt := 9000, payment_verifiedAt := 9001\<rparr>,
          vr_order = example_order\<lparr>order_status := Paid, order_paymentId := Some ''pay_1''\<rparr>\<rparr>,
     service_paid\<lparr>payments :=
       [(''pay_1'', example_payment\<lparr>payment_createdAt := 9000, payment_verifiedAt := 9001\<rparr>)]\<rparr>)"
  by (simp add: service_paid_eq verifyPayment_def service_new_def
      new_PaymentService_def catch_rethrow_def createHmac_def example_confirmation_def
      example_hmac_def map_get_def example_order_def example_payment_def Let_def
      paymentRecord_def)

text \<open>
  The confirmation of the scenario, sent again four seconds later to the service that has
  the order paid under this payment id: the response is another one than the first, and
  the service is changed.
\<close>

theorem replay_renews_timestamps:
  "service_paid = snd (verifyPayment example_hmac 5000 5001 example_confirmation service_created)
   \<and> map_option order_paymentId (map_get (orders service_paid) ''order_1000_abc'')
       = Some (Some ''pay_1'')
   \<and> fst (verifyPayment example_hmac 9000 9001 example_confirmation service_paid)
       \<noteq> fst (verifyPayment example_hmac 5000 5001 example_confirmation service_created)
   \<and> snd (verifyPayment example_hmac 9000 9001 example_confirmation service_paid) \<noteq> service_paid"
proof -
  have linked: "map_option order_paymentId (map_get (orders service_paid) ''order_1000_abc'')
       = Some (Some ''pay_1'')"
    by (simp add: service_paid_eq map_get_def)
  have "payment_createdAt (example_payment\<lparr>payment_createdAt := 9000,
      payment_verifiedAt := 9001\<rparr>) \<noteq> payment_createdAt example_payment"
    by (simp add: example_payment_def)
  then have renewed: "example_payment\<lparr>payment_createdAt := 9000, payment_verifiedAt := 9001\<rparr>
      \<noteq> example_payment"
    by (rule contrapos_nn) (erule arg_cong)
  have responses: "fst (verifyPayment example_hmac 9000 9001 example_confirmation service_paid)
       \<noteq> fst (verifyPayment example_hmac 5000 5001 example_confirmation service_created)"
    using renewed
    by (simp add: example_confirmation_verified example_confirmation_replayed)
  have "payments (snd (verifyPayment example_hmac 9000 9001 example_confirmation service_paid))
      \<noteq> payments service_paid"
    using renewed
    by (simp add: example_confirmation_replayed) (simp add: service_paid_eq)
  then have states:
    "snd (verifyPayment example_hmac 9000 9001 example_confirmation service_paid) \<noteq> service_paid"
    by (rule contrapos_nn) (erule arg_cong)
  have "service_paid =
      snd (verifyPayment example_hmac 5000 5001 example_confirmation service_created)"
    by (rule service_paid_def)
  with linked responses states show ?thesis
    by blast
qed


theorem verifyPayment_replay_witness:
  "verifyPayment example_hmac 5000 5001 example_confirmation service_created =
      (Inr \<lparr>vr_success = True, vr_payment = example_payment,
            vr_order = example_order\<lparr>order_status := Paid, order_paymentId := Some ''pay_1''\<rparr>\<rparr>,
       service_paid)
   \<and> distinct (map fst (payments service_created))
   \<and> verifyPayment example_hmac 9000 9001 example_confirmation service_paid =
      (Inr \<lparr>vr_success = True,
            vr_payment = example_payment\<lparr>payment_createdAt := 9000, payment_verifiedAt := 9001\<rparr>,
            vr_order = example_order\<lparr>order_status := Paid, order_paymentId := Some ''pay_1''\<rparr>\<rparr>,
       service_paid\<lparr>payments :=
         map_set ''pay_1''
           (example_payment\<lparr>payment_createdAt := 9000, payment_verifiedAt := 9001\<rparr>)
           (payments service_paid)\<rparr>)
   \<and> length (filter (\<lambda>e. fst e = ''pay_1'')
        (payments (snd (verifyPayment example_hmac 9000 9001 example_confirmation service_paid))))
       = 1
   \<and> orders (snd (verifyPayment example_hmac 9000 9001 example_confirmation service_paid)) =
       orders service_paid
   \<and> verifyPayment example_hmac 5000 5001 example_confirmation service_paid =
      (Inr \<lparr>vr_success = True, vr_payment = example_payment,
            vr_order = example_order\<lparr>order_status := Paid, order_paymentId := Some ''pay_1''\<rparr>\<rparr>,
       service_paid)"
proof -
  let ?r = "\<lparr>vr_success = True, vr_payment = example_payment,
            vr_order = example_order\<lparr>order_status := Paid, order_paymentId := Some ''pay_1''\<rparr>\<rparr>"
  have d: "distinct (map fst (payments service_created))"
    by (simp add: service_created_eq service_new_def new_PaymentService_def)
  have id: "payment_id example_payment = ''pay_1''"
    by (simp add: example_payment_def)
  have p: "vr_payment ?r = example_payment"
    by simp
  have u: "?r\<lparr>vr_payment := x\<rparr> = \<lparr>vr_success = True, vr_payment = x,
            vr_order = example_order\<lparr>order_status := Paid, order_paymentId := Some ''pay_1''\<rparr>\<rparr>"
    for x
    by simp
  note th = verifyPayment_replay [OF example_confirmation_verified, of 9000 9001]
  from th [unfolded p u id] d example_confirmation_verified show ?thesis
    by blast
qed

subsection \<open>Units of the two queries\<close>

lemma set_array_sort: "set (array_sort cmp xs) = set xs"
  using mset_array_sort [of cmp xs] by (metis set_mset_mset)

lemma set_map_set_subset: "set (map_set k v m) \<subseteq> insert (k, v) (set m)"
  by (induction m) auto

lemma map_get_in_set: "map_get m k = Some v \<Longrightarrow> (k, v) \<in> set m"
  by (simp add: map_get_def map_of_SomeD)

text \<open>
  A name that the plans inherit, as \<^verbatim>\<open>planType\<close>: the order is stored, its amount is
  \<^verbatim>\<open>NaN\<close>.
\<close>

lemma getPlanDetails_examples:
  "getPlanDetails ''standard'' =
      Some (Catalog_plan \<lparr>plan_questions = 10, plan_price = 299, plan_name = ''Standard Plan''\<rparr>)"
  "getPlanDetails ''constructor'' = Some (Builtin_function ''Object'')"
  "getPlanDetails ''toString'' = Some (Builtin_function ''toString'')"
  "getPlanDetails ''__proto__'' = Some Object_prototype"
  "getPlanDetails ''gold'' = None"
  by (simp_all add: getPlanDetails_def plans_get_def plans_def object_prototype_functions_def)

lemma createOrder_constructor:
  "createOrder 1000 ''abc'' 1999 ''u1'' ''constructor'' (Some example_user) service_new =
    (Inr \<lparr>cr_success = True,
          cr_order =
            \<lparr>od_id = ''order_1000_abc'', od_amount = NaN, od_currency = ''INR'',
             od_key = Some ''rzp_test'', od_name = ''ChatAstro'',
             od_description = ''Object - undefined Questions'',
             od_prefill =
               \<lparr>prefill_name = ''Asha'', prefill_contact = [], prefill_email = []\<rparr>\<rparr>\<rparr>,
     service_new\<lparr>orders :=
       [(''order_1000_abc'',
         example_order\<lparr>order_amount := NaN,
           order_notes := (order_notes example_order)\<lparr>notes_planType := ''constructor''\<rparr>,
           order_planType := ''constructor'',
           order_plan := Builtin_function ''Object''\<rparr>)]\<rparr>)"
  by (simp add: createOrder_def service_new_def new_PaymentService_def
      plans_get_def plans_def object_prototype_functions_def po_price_def po_name_def
      po_questions_def to_number_def template_string_def template_nat_def catch_rethrow_def
      digit_def or_else_def falsy_def example_order_def example_user_def Let_def)

text \<open>
  What every service reached by a run holds: amounts that are \<^verbatim>\<open>NaN\<close> or whole multiples
  of 100, payment ids that are not empty, each payment under its own id, and, where an
  order names a payment that names the order, one amount on both.
\<close>

lemma reachable_amounts:
  "reachable hmac s \<Longrightarrow>
    (\<forall>e \<in> set (orders s).
       order_amount (snd e) = NaN \<or> (\<exists>n::int. order_amount (snd e) = Number (of_int (100 * n)))) \<and>
    (\<forall>e \<in> set (payments s).
       payment_amount (snd e) = NaN \<or>
       (\<exists>n::int. payment_amount (snd e) = Number (of_int (100 * n))))"
proof (induction rule: reachable.induct)
  case (reachable_new key_id key_secret webhook_secret)
  then show ?case
    by (simp add: new_PaymentService_def)
next
  case (reachable_perform s op)
  let ?W = "\<lambda>x. x = NaN \<or> (\<exists>n::int. x = Number (of_int (100 * n)))"
  from reachable_perform have io: "\<forall>e \<in> set (orders s). ?W (order_amount (snd e))"
    and ip: "\<forall>e \<in> set (payments s). ?W (payment_amount (snd e))"
    by blast+
  have upd_o: "\<forall>e \<in> set (map_set k v (orders s)). ?W (order_amount (snd e))"
    if "?W (order_amount v)" for k v
    using set_map_set_subset [of k v "orders s"] io that by auto
  have upd_p: "\<forall>e \<in> set (map_set k v (payments s)). ?W (payment_amount (snd e))"
    if "?W (payment_amount v)" for k v
    using set_map_set_subset [of k v "payments s"] ip that by auto
  have stored: "?W (order_amount ord)" if "map_get (orders s) oid = Some ord" for oid ord
    using map_get_in_set [OF that] io by auto
  show ?case
  proof (cases hmac op s rule: perform_cases)
    case same
    with io ip show ?thesis
      by simp
  next
    case (created k v)
    from upd_o [OF created(4), of k] ip show ?thesis
      by (simp add: created(1))
  next
    case (paid oid pid ord tc tv)
    from stored [OF paid(1)]
    have a: "?W (order_amount (ord\<lparr>order_status := Paid, order_paymentId := Some pid\<rparr>))"
      and b: "?W (payment_amount (paymentRecord pid oid ord tc tv))"
      by (simp_all add: paymentRecord_def)
    from upd_o [OF a, of oid] upd_p [OF b, of pid] show ?thesis
      by (simp add: paid(3))
  next
    case (failed oid ord ed now)
    from stored [OF failed(1)]
    have a: "?W (order_amount
        (ord\<lparr>order_status := Failed, order_error := ed, order_failedAt := Some now\<rparr>))"
      by simp
    from upd_o [OF a, of oid] ip show ?thesis
      by (simp add: failed(2))
  qed
qed

lemma reachable_payment_ids:
  "reachable hmac s \<Longrightarrow>
    (\<forall>oid ord pid. map_get (orders s) oid = Some ord \<and> order_paymentId ord = Some pid
       \<longrightarrow> pid \<noteq> []) \<and>
    (\<forall>pid p. map_get (payments s) pid = Some p \<longrightarrow> payment_id p = pid)"
proof (induction rule: reachable.induct)
  case (reachable_new key_id key_secret webhook_secret)
  then show ?case
    by (simp add: new_PaymentService_def map_get_def)
next
  case (reachable_perform s op)
  then show ?case
    by (cases hmac op s rule: perform_cases)
      (auto simp: map_get_map_set paymentRecord_def split: if_splits)
qed

lemma reachable_linked_amounts:
  "reachable hmac s \<Longrightarrow>
    \<forall>oid ord pid p. map_get (orders s) oid = Some ord \<and> order_paymentId ord = Some pid \<and>
      map_get (payments s) pid = Some p \<and> payment_orderId p = oid
      \<longrightarrow> payment_amount p = order_amount ord"
proof (induction rule: reachable.induct)
  case (reachable_new key_id key_secret webhook_secret)
  then show ?case
    by (simp add: new_PaymentService_def map_get_def)
next
  case (reachable_perform s op)
  then show ?case
    by (cases hmac op s rule: perform_cases)
      (auto simp: map_get_map_set paymentRecord_def split: if_splits)
qed


lemma history_lists_payment:
  assumes "q \<in> set (map_values (payments s))"
  shows "\<exists>e \<in> set (getUserPayments s (payment_userId q)).
    he_id e = payment_id q \<and> he_orderId e = payment_orderId q \<and>
    he_amount e = div_100 (payment_amount q)"
proof -
  from assms have "history_entry_of q \<in> set (getUserPayments s (payment_userId q))"
    by (simp add: getUserPayments_def set_array_sort)
  then show ?thesis
    by (rule bexI [rotated]) (simp add: history_entry_of_def)
qed

lemma status_reports_stored_amount:
  assumes "map_get (orders s) oid = Some ord"
  shows "\<exists>snap. getPaymentStatus s oid = Some snap \<and>
    so_amount (ps_order snap) = order_amount ord \<and>
    ps_payment snap =
      (if falsy (order_paymentId ord) then None
       else map_option
         (\<lambda>p. \<lparr>sp_id = payment_id p, sp_status = payment_status p,
                sp_method = payment_method p, sp_verifiedAt = payment_verifiedAt p\<rparr>)
         (case order_paymentId ord of None \<Rightarrow> None | Some pid \<Rightarrow> map_get (payments s) pid))"
  using assms
  by (auto simp: getPaymentStatus_def Let_def split: option.splits)

text \<open>
  C10. In every service, \<^verbatim>\<open>getUserPayments\<close> lists each stored payment under its user with
  the amount of the payment divided by 100, and \<^verbatim>\<open>getPaymentStatus\<close> reports the amount of
  the order as it is stored. In every service reached by a run, for an order that names a
  payment that is stored and names the order, the two stored amounts are one, so the
  figure of the history is the figure of the status divided by 100: both are \<^verbatim>\<open>NaN\<close>, or
  the status reports a whole multiple \<open>100 * n\<close> and the history \<open>n\<close>. A call of
  \<^verbatim>\<open>verifyPayment\<close> that returns leaves the order and the payment so.
\<close>

theorem history_amount_is_hundredth_of_status_amount:
  "(\<forall>q \<in> set (map_values (payments s)).
      \<exists>e \<in> set (getUserPayments s (payment_userId q)).
        he_id e = payment_id q \<and> he_orderId e = payment_orderId q \<and>
        he_amount e = div_100 (payment_amount q))
   \<and> (map_get (orders s) oid = Some ord \<longrightarrow>
        (\<exists>snap. getPaymentStatus s oid = Some snap \<and>
           so_amount (ps_order snap) = order_amount ord))
   \<and> (reachable hmac s \<and> map_get (orders s) oid = Some ord \<and>
       order_paymentId ord = Some pid \<and> map_get (payments s) pid = Some p \<and>
       payment_orderId p = oid \<longrightarrow>
        (\<exists>snap e. getPaymentStatus s oid = Some snap
           \<and> map_option sp_id (ps_payment snap) = Some pid
           \<and> so_amount (ps_order snap) = order_amount ord
           \<and> so_amount (ps_order snap) = payment_amount p
           \<and> e \<in> set (getUserPayments s (payment_userId p))
           \<and> he_id e = pid \<and> he_orderId e = oid
           \<and> he_amount e = div_100 (so_amount (ps_order snap))
           \<and> (so_amount (ps_order snap) = NaN \<and> he_amount e = NaN
              \<or> (\<exists>n::int. so_amount (ps_order snap) = Number (of_int (100 * n)) \<and>
                    he_amount e = Number (of_int n)))))
   \<and> (fst (verifyPayment hmac tc tv pd s) = Inr r \<longrightarrow>
        map_get (orders (snd (verifyPayment hmac tc tv pd s))) (payment_orderId (vr_payment r))
          = Some (vr_order r)
        \<and> order_paymentId (vr_order r) = Some (payment_id (vr_payment r))
        \<and> map_get (payments (snd (verifyPayment hmac tc tv pd s))) (payment_id (vr_payment r))
          = Some (vr_payment r)
        \<and> payment_amount (vr_payment r) = order_amount (vr_order r))"
proof (intro conjI impI ballI)
  fix q
  assume "q \<in> set (map_values (payments s))"
  then show "\<exists>e \<in> set (getUserPayments s (payment_userId q)).
        he_id e = payment_id q \<and> he_orderId e = payment_orderId q \<and>
        he_amount e = div_100 (payment_amount q)"
    by (rule history_lists_payment)
next
  assume "map_get (orders s) oid = Some ord"
  from status_reports_stored_amount [OF this]
  show "\<exists>snap. getPaymentStatus s oid = Some snap \<and>
           so_amount (ps_order snap) = order_amount ord"
    by blast
next
  assume a: "reachable hmac s \<and> map_get (orders s) oid = Some ord \<and>
       order_paymentId ord = Some pid \<and> map_get (payments s) pid = Some p \<and>
       payment_orderId p = oid"
  then have reach: "reachable hmac s" and ord: "map_get (orders s) oid = Some ord"
    and names: "order_paymentId ord = Some pid" and p: "map_get (payments s) pid = Some p"
    and owner: "payment_orderId p = oid"
    by blast+
  from reachable_payment_ids [OF reach] ord names p
  have pid: "pid \<noteq> []" and id: "payment_id p = pid"
    by blast+
  from reachable_linked_amounts [OF reach] ord names p owner
  have same: "payment_amount p = order_amount ord"
    by blast
  from status_reports_stored_amount [OF ord] obtain snap where
    snap: "getPaymentStatus s oid = Some snap" "so_amount (ps_order snap) = order_amount ord"
    "map_option sp_id (ps_payment snap) = Some pid"
    using names p pid id by (auto simp: falsy_def)
  from map_get_in_set [OF p] have "p \<in> set (map_values (payments s))"
    by (force simp: map_values_def)
  from history_lists_payment [OF this] obtain e where
    e: "e \<in> set (getUserPayments s (payment_userId p))" "he_id e = payment_id p"
    "he_orderId e = payment_orderId p" "he_amount e = div_100 (payment_amount p)"
    by blast
  from reachable_amounts [OF reach] map_get_in_set [OF ord]
  have "order_amount ord = NaN \<or> (\<exists>n::int. order_amount ord = Number (of_int (100 * n)))"
    by auto
  then have units: "so_amount (ps_order snap) = NaN \<and> he_amount e = NaN
      \<or> (\<exists>n::int. so_amount (ps_order snap) = Number (of_int (100 * n)) \<and>
            he_amount e = Number (of_int n))"
    by (auto simp: e(4) same snap(2))
  from snap e units show "\<exists>snap e. getPaymentStatus s oid = Some snap
           \<and> map_option sp_id (ps_payment snap) = Some pid
           \<and> so_amount (ps_order snap) = order_amount ord
           \<and> so_amount (ps_order snap) = payment_amount p
           \<and> e \<in> set (getUserPayments s (payment_userId p))
           \<and> he_id e = pid \<and> he_orderId e = oid
           \<and> he_amount e = div_100 (so_amount (ps_order snap))
           \<and> (so_amount (ps_order snap) = NaN \<and> he_amount e = NaN
              \<or> (\<exists>n::int. so_amount (ps_order snap) = Number (of_int (100 * n)) \<and>
                    he_amount e = Number (of_int n)))"
    by (intro exI [of _ snap] exI [of _ e]) (simp add: same id owner)
next
  assume ok: "fst (verifyPayment hmac tc tv pd s) = Inr r"
  from verifyPayment_InrD [OF ok] obtain oid' pid' sig ord' k where c:
    "razorpay_order_id pd = Some oid'" "razorpay_payment_id pd = Some pid'"
    "razorpay_signature pd = Some sig" "oid' \<noteq> []" "pid' \<noteq> []" "sig \<noteq> []"
    "map_get (orders s) oid' = Some ord'" "keySecret (razorpayConfig s) = Some k"
    "sig = hmac k (oid' @ ''|'' @ pid')"
    by blast
  note v = verifyPayment_valid [where hmac = hmac and tc = tc and tv = tv, OF c]
  from ok have r: "r = \<lparr>vr_success = True, vr_payment = paymentRecord pid' oid' ord' tc tv,
      vr_order = ord'\<lparr>order_status := Paid, order_paymentId := Some pid'\<rparr>\<rparr>"
    by (simp add: v)
  show "map_get (orders (snd (verifyPayment hmac tc tv pd s))) (payment_orderId (vr_payment r))
      = Some (vr_order r)"
    and "order_paymentId (vr_order r) = Some (payment_id (vr_payment r))"
    and "map_get (payments (snd (verifyPayment hmac tc tv pd s))) (payment_id (vr_payment r))
      = Some (vr_payment r)"
    and "payment_amount (vr_payment r) = order_amount (vr_order r)"
    by (simp_all add: v r map_get_map_set paymentRecord_def)
qed

lemma reachable_service_paid: "reachable example_hmac service_paid"
proof -
  have "reachable example_hmac
      (perform example_hmac (VerifyPayment 5000 5001 example_confirmation) service_created)"
    using reachable_service_created by (rule reachable_perform)
  then show ?thesis
    by (simp add: service_paid_def)
qed

theorem history_amount_is_hundredth_of_status_amount_witness:
  "reachable example_hmac service_paid
   \<and> map_get (orders service_paid) ''order_1000_abc'' =
       Some (example_order\<lparr>order_status := Paid, order_paymentId := Some ''pay_1''\<rparr>)
   \<and> map_get (payments service_paid) ''pay_1'' = Some example_payment
   \<and> payment_orderId example_payment = ''order_1000_abc''
   \<and> (\<exists>snap e.
         getPaymentStatus service_paid ''order_1000_abc'' = Some snap \<and>
         so_amount (ps_order snap) = Number 29900 \<and>
         map_option sp_id (ps_payment snap) = Some ''pay_1'' \<and>
         e \<in> set (getUserPayments service_paid ''u1'') \<and>
         he_id e = ''pay_1'' \<and> he_orderId e = ''order_1000_abc'' \<and>
         he_amount e = Number 299)"
proof -
  let ?ord = "example_order\<lparr>order_status := Paid, order_paymentId := Some ''pay_1''\<rparr>"
  have ord: "map_get (orders service_paid) ''order_1000_abc'' = Some ?ord"
    by (simp add: service_paid_eq map_get_def)
  have names: "order_paymentId ?ord = Some ''pay_1''"
    by simp
  have p: "map_get (payments service_paid) ''pay_1'' = Some example_payment"
    by (simp add: service_paid_eq map_get_def)
  have owner: "payment_orderId example_payment = ''order_1000_abc''"
    and user: "payment_userId example_payment = ''u1''"
    and amount: "order_amount ?ord = Number 29900"
    by (simp_all add: example_payment_def example_order_def)
  from history_amount_is_hundredth_of_status_amount [of service_paid "''order_1000_abc''" ?ord
      example_hmac "''pay_1''" example_payment]
    reachable_service_paid ord names p owner
  obtain snap e where
    "getPaymentStatus service_paid ''order_1000_abc'' = Some snap"
    "map_option sp_id (ps_payment snap) = Some ''pay_1''"
    "so_amount (ps_order snap) = order_amount ?ord"
    "e \<in> set (getUserPayments service_paid (payment_userId example_payment))"
    "he_id e = ''pay_1''" "he_orderId e = ''order_1000_abc''"
    "he_amount e = div_100 (so_amount (ps_order snap))"
    by blast
  then have "\<exists>snap e.
         getPaymentStatus service_paid ''order_1000_abc'' = Some snap \<and>
         so_amount (ps_order snap) = Number 29900 \<and>
         map_option sp_id (ps_payment snap) = Some ''pay_1'' \<and>
         e \<in> set (getUserPayments service_paid ''u1'') \<and>
         he_id e = ''pay_1'' \<and> he_orderId e = ''order_1000_abc'' \<and>
         he_amount e = Number 299"
    unfolding user amount by (intro exI [of _ snap] exI [of _ e]) simp
  with reachable_service_paid ord p owner show ?thesis
    by blast
qed

end
